theory Spec2Isabelle
  imports Main
begin

section \<open>JavaScript values\<close>

text \<open>
  JavaScript values as the pages handle them. Strings are byte sequences (UTF-8 for
  text outside ASCII). An array or an object is carried as the text between the
  brackets of its JSON form: the pages only test such a value for truthiness and for
  \<^verbatim>\<open>typeof\<close>, or pass it to \<^verbatim>\<open>JSON.stringify\<close>. Numbers are restricted to
  integers.
\<close>

datatype jsval =
  JUndefined | JNull | JBool bool | JNum int | JStr string | JArr string | JObj string

text \<open>Truthiness, as \<^verbatim>\<open>!v\<close> and \<^verbatim>\<open>a || b\<close> test it.\<close>

fun truthy :: "jsval \<Rightarrow> bool" where
  "truthy JUndefined = False"
| "truthy JNull = False"
| "truthy (JBool b) = b"
| "truthy (JNum n) = (n \<noteq> 0)"
| "truthy (JStr s) = (s \<noteq> [])"
| "truthy (JArr t) = True"
| "truthy (JObj t) = True"

definition js_or :: "jsval \<Rightarrow> jsval \<Rightarrow> jsval" where
  "js_or a b = (if truthy a then a else b)"

text \<open>
  A value that is a string or \<^verbatim>\<open>null\<close> (what \<^verbatim>\<open>localStorage.getItem\<close>
  returns), or a string field that may be absent: \<open>None\<close> is \<^verbatim>\<open>null\<close> or
  \<^verbatim>\<open>undefined\<close>.
\<close>

definition truthy_str :: "string option \<Rightarrow> bool" where
  "truthy_str v = (case v of None \<Rightarrow> False | Some s \<Rightarrow> s \<noteq> [])"

text \<open>A string field inside a template literal: an absent one prints as \<^verbatim>\<open>undefined\<close>.\<close>

definition template :: "string option \<Rightarrow> string" where
  "template v = (case v of None \<Rightarrow> ''undefined'' | Some s \<Rightarrow> s)"

text \<open>\<^verbatim>\<open>s.includes(n)\<close>: \<open>n\<close> occurs in \<open>s\<close> as a contiguous run.\<close>

fun startsWith :: "string \<Rightarrow> string \<Rightarrow> bool" where
  "startsWith s [] = True"
| "startsWith [] (c # cs) = False"
| "startsWith (x # xs) (c # cs) = (x = c \<and> startsWith xs cs)"

fun str_includes :: "string \<Rightarrow> string \<Rightarrow> bool" where
  "str_includes [] n = (n = [])"
| "str_includes (x # xs) n = (startsWith (x # xs) n \<or> str_includes xs n)"

section \<open>The results page: data\<close>

text \<open>
  The value of a field that the page treats as an array: absent (\<^verbatim>\<open>undefined\<close>),
  \<^verbatim>\<open>null\<close>, another value that is not an array (it has no \<^verbatim>\<open>filter\<close>
  method), or an array. An element of an array is \<^verbatim>\<open>null\<close> or
  \<^verbatim>\<open>undefined\<close> (\<open>ENull\<close>: reading a property of it throws), an object with the
  fields of its kind (\<open>EObj\<close>: a field it lacks reads as \<^verbatim>\<open>undefined\<close>), or any
  other value (\<open>EPrim\<close>: the properties the page reads are \<^verbatim>\<open>undefined\<close> on it).
\<close>

datatype 'a element = ENull | EPrim | EObj 'a

datatype 'a js_field = Absent | Null | NotArray | Items "'a element list"

text \<open>
  The object that \<^verbatim>\<open>GET /api/results/{job_id}\<close> returns, with the fields the
  page reads. A text field is a string when present (\<open>None\<close>: the field is absent or
  \<^verbatim>\<open>null\<close>), and so is \<open>files\<close> an array when present. The categorical fields
  and \<open>status\<close> are arbitrary values, compared with \<^verbatim>\<open>===\<close>.
\<close>

record issue =
  title :: jsval
  description :: jsval
  issue_type :: jsval
  severity :: jsval
  issue_file :: jsval
  issue_line :: jsval

record enhancement =
  enh_title :: jsval
  enh_type :: jsval

record file_suggestion =
  fs_file :: jsval
  priority :: jsval

record analysis_data =
  status :: jsval
  resp_error :: "string option"
  issues :: "issue js_field"
  enhancements :: "enhancement js_field"
  file_suggestions :: "file_suggestion js_field"
  files :: "jsval list option"
  total_lines :: "int option"
  patch :: "string option"
  enhancement_patch :: "string option"
  deployment_patch :: "string option"

text \<open>
  A rejected request (the \<^verbatim>\<open>err\<close> of a \<^verbatim>\<open>catch\<close>): the HTTP response when
  there is one, with its status code and the \<^verbatim>\<open>detail\<close> of its body, and the
  error's own message.
\<close>

record http_response =
  http_status :: int
  detail :: jsval

record failure =
  response :: "http_response option"
  message :: jsval

text \<open>\<^verbatim>\<open>err.response?.data?.detail\<close>\<close>

definition detail_of :: "failure \<Rightarrow> jsval" where
  "detail_of err = (case response err of None \<Rightarrow> JUndefined | Some r \<Rightarrow> detail r)"

datatype get_outcome = Resolved analysis_data | Rejected failure

text \<open>The state variables of the \<^verbatim>\<open>Results\<close> component.\<close>

record results_state =
  job_id :: "string option"
  result :: "analysis_data option"
  loading :: bool
  error :: jsval
  creatingIssue :: bool
  creatingPR :: bool
  creatingEnhancementPR :: bool
  creatingDeploymentPR :: bool
  token :: "string option"
  userName :: string
  isMounted :: bool
  autoRefresh :: bool
  analysisProgress :: int

definition initial_results :: "string option \<Rightarrow> results_state" where
  "initial_results job =
     \<lparr>job_id = job, result = None, loading = True, error = JStr [],
      creatingIssue = False, creatingPR = False, creatingEnhancementPR = False,
      creatingDeploymentPR = False, token = None, userName = ''User'',
      isMounted = False, autoRefresh = True, analysisProgress = 0\<rparr>"

section \<open>The job poller\<close>

text \<open>
  \<^verbatim>\<open>fetchResults\<close> is one tick. It runs up to its \<^verbatim>\<open>await\<close>
  (\<open>fetchResults_request\<close>), and continues when the request settles
  (\<open>fetchResults_response\<close>). The function is a closure of the effect that started
  the polling: the \<^verbatim>\<open>autoRefresh\<close> it tests is the value of the render in which
  that effect ran, here the parameter \<open>ar\<close>. The second component of the result
  tells whether \<^verbatim>\<open>setTimeout(fetchResults, 2000)\<close> was called.
\<close>

definition fetchResults_request :: "results_state \<Rightarrow> results_state" where
  "fetchResults_request s = s\<lparr>loading := True\<rparr>"

definition fetchResults_response ::
  "bool \<Rightarrow> get_outcome \<Rightarrow> results_state \<Rightarrow> results_state \<times> bool" where
  "fetchResults_response ar outcome s =
     (case outcome of
        Resolved d \<Rightarrow>
          if status d = JStr ''running'' then
            (s\<lparr>analysisProgress := min (analysisProgress s + 10) 90\<rparr>, ar)
          else if status d = JStr ''error'' then
            (s\<lparr>error := JStr (''Analysis failed: '' @ template (resp_error d)),
               loading := False, analysisProgress := 0\<rparr>, False)
          else
            (s\<lparr>result := Some d, loading := False, analysisProgress := 100\<rparr>, False)
      | Rejected err \<Rightarrow>
          (s\<lparr>error := js_or (detail_of err)
                         (js_or (message err) (JStr ''Failed to fetch results'')),
             loading := False, analysisProgress := 0\<rparr>, False))"

definition fetchResults :: "bool \<Rightarrow> get_outcome \<Rightarrow> results_state \<Rightarrow> results_state \<times> bool" where
  "fetchResults ar outcome s = fetchResults_response ar outcome (fetchResults_request s)"

text \<open>The cleanup of the polling effect: \<^verbatim>\<open>setAutoRefresh(false)\<close>.\<close>

definition cleanup :: "results_state \<Rightarrow> results_state" where
  "cleanup s = s\<lparr>autoRefresh := False\<rparr>"

text \<open>
  A polling run against the outcomes of its successive requests: the states after each
  tick. A tick runs only when the one before it scheduled it.
\<close>

fun poll :: "bool \<Rightarrow> get_outcome list \<Rightarrow> results_state \<Rightarrow> results_state list" where
  "poll ar [] s = []"
| "poll ar (r # rs) s =
     (case fetchResults ar r s of
        (s', scheduled) \<Rightarrow> s' # (if scheduled then poll ar rs s' else []))"

text \<open>
  The polling effect: it returns at once without a job id or before the component is
  mounted, and otherwise starts the run with the current \<^verbatim>\<open>autoRefresh\<close>.
\<close>

definition polling_effect :: "get_outcome list \<Rightarrow> results_state \<Rightarrow> results_state list" where
  "polling_effect outcomes s =
     (if \<not> truthy_str (job_id s) \<or> \<not> isMounted s then []
      else poll (autoRefresh s) outcomes s)"

section \<open>The action dispatcher\<close>

text \<open>
  What a handler does besides updating the state, in order: a \<^verbatim>\<open>POST\<close> to a
  path under the API base URL with the body \<^verbatim>\<open>{job_id, access_token}\<close>, an
  \<^verbatim>\<open>alert\<close>, a \<^verbatim>\<open>window.open\<close>.
\<close>

datatype page_effect =
    Post string "string option" "string option"
  | Alert string
  | WindowOpen string

text \<open>How the request settles, if it is made: with a \<^verbatim>\<open>pr_url\<close>, or rejected.\<close>

datatype pr_outcome = Created string | Failed failure

definition check_mark :: string where
  "check_mark = [CHR 0xE2, CHR 0x9C, CHR 0x85]"

definition createPR :: "pr_outcome \<Rightarrow> results_state \<Rightarrow> results_state \<times> page_effect list" where
  "createPR outcome s =
     (if \<not> truthy_str (token s) then
        (s\<lparr>error := JStr ''Not authenticated. Please login first.''\<rparr>, [])
      else if \<not> truthy_str (Option.bind (result s) patch) then
        (s\<lparr>error := JStr ''No patch available''\<rparr>, [])
      else
        (case outcome of
           Created pr_url \<Rightarrow>
             (s\<lparr>creatingPR := False\<rparr>,
              [Post ''/api/pr'' (job_id s) (token s),
               Alert (check_mark @ '' Pull request created!'' @ [CHR 0x0A, CHR 0x0A] @ pr_url),
               WindowOpen pr_url])
         | Failed err \<Rightarrow>
             (s\<lparr>error := js_or (detail_of err) (JStr ''Failed to create PR''),
                creatingPR := False\<rparr>,
              [Post ''/api/pr'' (job_id s) (token s)])))"

definition createEnhancementPR ::
  "pr_outcome \<Rightarrow> results_state \<Rightarrow> results_state \<times> page_effect list" where
  "createEnhancementPR outcome s =
     (if \<not> truthy_str (token s) then
        (s\<lparr>error := JStr ''Not authenticated. Please login first.''\<rparr>, [])
      else if \<not> truthy_str (Option.bind (result s) enhancement_patch) then
        (s\<lparr>error := JStr ''No enhancement suggestions available''\<rparr>, [])
      else
        (case outcome of
           Created pr_url \<Rightarrow>
             (s\<lparr>creatingEnhancementPR := False\<rparr>,
              [Post ''/api/pr-enhancements'' (job_id s) (token s),
               Alert (check_mark @ '' Enhancement PR created!'' @ [CHR 0x0A, CHR 0x0A] @ pr_url),
               WindowOpen pr_url])
         | Failed err \<Rightarrow>
             (s\<lparr>error := js_or (detail_of err) (JStr ''Failed to create enhancement PR''),
                creatingEnhancementPR := False\<rparr>,
              [Post ''/api/pr-enhancements'' (job_id s) (token s)])))"

definition createDeploymentPR ::
  "pr_outcome \<Rightarrow> results_state \<Rightarrow> results_state \<times> page_effect list" where
  "createDeploymentPR outcome s =
     (if \<not> truthy_str (token s) then
        (s\<lparr>error := JStr ''Not authenticated. Please login first.''\<rparr>, [])
      else if \<not> truthy_str (Option.bind (result s) deployment_patch) then
        (s\<lparr>error := JStr ''No deployment configuration available''\<rparr>, [])
      else
        (case outcome of
           Created pr_url \<Rightarrow>
             (s\<lparr>creatingDeploymentPR := False\<rparr>,
              [Post ''/api/pr-deployment'' (job_id s) (token s),
               Alert (check_mark @ '' Deployment configuration PR created!''
                        @ [CHR 0x0A, CHR 0x0A] @ pr_url),
               WindowOpen pr_url])
         | Failed err \<Rightarrow>
             (s\<lparr>error := js_or (detail_of err) (JStr ''Failed to create deployment PR''),
                creatingDeploymentPR := False\<rparr>,
              [Post ''/api/pr-deployment'' (job_id s) (token s)])))"

text \<open>Whether a handler made a network call.\<close>

fun is_post :: "page_effect \<Rightarrow> bool" where
  "is_post (Post path job tok) = True"
| "is_post (Alert text) = False"
| "is_post (WindowOpen url) = False"

section \<open>The result aggregator\<close>

record stats =
  highSeverity :: nat
  mediumSeverity :: nat
  lowSeverity :: nat
  performanceEnhancements :: nat
  securityEnhancements :: nat
  maintainabilityEnhancements :: nat
  highPriorityFiles :: nat
  mediumPriorityFiles :: nat
  lowPriorityFiles :: nat
  totalFiles :: nat
  analyzedLines :: int
  totalIssues :: nat
  totalEnhancements :: nat

text \<open>A statement that throws ends the function: the error is the result.\<close>

datatype js_error = TypeError

definition and_then :: "js_error + 'a \<Rightarrow> ('a \<Rightarrow> js_error + 'b) \<Rightarrow> js_error + 'b" where
  "and_then v f = (case v of Inl e \<Rightarrow> Inl e | Inr x \<Rightarrow> f x)"

text \<open>The destructuring default \<^verbatim>\<open>= []\<close>: it replaces \<^verbatim>\<open>undefined\<close> only.\<close>

definition default_empty :: "'a js_field \<Rightarrow> 'a js_field" where
  "default_empty v = (case v of Absent \<Rightarrow> Items [] | _ \<Rightarrow> v)"

text \<open>\<^verbatim>\<open>i.severity\<close>, \<^verbatim>\<open>e.type\<close>, \<^verbatim>\<open>f.priority\<close>: reading the field \<open>f\<close> of an
  element.\<close>

definition read_field :: "('a \<Rightarrow> jsval) \<Rightarrow> 'a element \<Rightarrow> js_error + jsval" where
  "read_field f e =
     (case e of ENull \<Rightarrow> Inl TypeError | EPrim \<Rightarrow> Inr JUndefined | EObj x \<Rightarrow> Inr (f x))"

text \<open>\<^verbatim>\<open>Array.prototype.filter\<close> with a callback that may throw: the elements are
  tested in order, and the first throw ends the call.\<close>

fun js_filter :: "('a \<Rightarrow> js_error + bool) \<Rightarrow> 'a list \<Rightarrow> js_error + 'a list" where
  "js_filter p [] = Inr []"
| "js_filter p (x # xs) =
     and_then (p x) (\<lambda>keep.
       and_then (js_filter p xs) (\<lambda>ys. Inr (if keep then x # ys else ys)))"

text \<open>\<^verbatim>\<open>v.filter(x => x.f === c).length\<close>: only an array has the method.\<close>

definition filter_length :: "'a js_field \<Rightarrow> ('a \<Rightarrow> jsval) \<Rightarrow> string \<Rightarrow> js_error + nat" where
  "filter_length v f c =
     (case v of
        Items xs \<Rightarrow>
          and_then (js_filter (\<lambda>e. and_then (read_field f e) (\<lambda>x. Inr (x = JStr c))) xs)
            (\<lambda>ys. Inr (length ys))
      | _ \<Rightarrow> Inl TypeError)"

text \<open>The elements of a value that is an array (as it is where \<open>calculateStats\<close> reads
  \<^verbatim>\<open>.length\<close>: the calls of \<^verbatim>\<open>filter\<close> before have returned).\<close>

definition items :: "'a js_field \<Rightarrow> 'a element list" where
  "items v = (case v of Items xs \<Rightarrow> xs | _ \<Rightarrow> [])"

text \<open>\<open>calculateStats\<close> returns \<^verbatim>\<open>null\<close> (\<open>Inr None\<close>) without a result, the
  statistics, or it throws.\<close>

definition calculateStats :: "analysis_data option \<Rightarrow> js_error + stats option" where
  "calculateStats res =
     (case res of
        None \<Rightarrow> Inr None
      | Some r \<Rightarrow>
          (let issues' = default_empty (issues r);
               enhancements' = default_empty (enhancements r);
               file_suggestions' = default_empty (file_suggestions r)
           in
             and_then (filter_length issues' severity ''high'') (\<lambda>highSeverity'.
             and_then (filter_length issues' severity ''medium'') (\<lambda>mediumSeverity'.
             and_then (filter_length issues' severity ''low'') (\<lambda>lowSeverity'.
             and_then (filter_length enhancements' enh_type ''performance'')
               (\<lambda>performanceEnhancements'.
             and_then (filter_length enhancements' enh_type ''security'')
               (\<lambda>securityEnhancements'.
             and_then (filter_length enhancements' enh_type ''maintainability'')
               (\<lambda>maintainabilityEnhancements'.
             and_then (filter_length file_suggestions' priority ''high'') (\<lambda>highPriorityFiles'.
             and_then (filter_length file_suggestions' priority ''medium'')
               (\<lambda>mediumPriorityFiles'.
             and_then (filter_length file_suggestions' priority ''low'') (\<lambda>lowPriorityFiles'.
               Inr (Some
                 \<lparr>highSeverity = highSeverity',
                  mediumSeverity = mediumSeverity',
                  lowSeverity = lowSeverity',
                  performanceEnhancements = performanceEnhancements',
                  securityEnhancements = securityEnhancements',
                  maintainabilityEnhancements = maintainabilityEnhancements',
                  highPriorityFiles = highPriorityFiles',
                  mediumPriorityFiles = mediumPriorityFiles',
                  lowPriorityFiles = lowPriorityFiles',
                  totalFiles = (case files r of None \<Rightarrow> 0 | Some xs \<Rightarrow> length xs),
                  analyzedLines =
                    (case total_lines r of None \<Rightarrow> 0 | Some n \<Rightarrow> if n \<noteq> 0 then n else 0),
                  totalIssues = length (items issues'),
                  totalEnhancements = length (items enhancements')\<rparr>))))))))))))"

text \<open>
  The values on which no \<^verbatim>\<open>filter\<close> call of \<open>calculateStats\<close> throws: an absent
  field, or an array without a \<^verbatim>\<open>null\<close> or \<^verbatim>\<open>undefined\<close> element. And the
  value that \<open>calculateStats\<close> compares when it reads the field \<open>f\<close> of an element.
\<close>

definition usable :: "'a js_field \<Rightarrow> bool" where
  "usable v = (case v of Absent \<Rightarrow> True | Items xs \<Rightarrow> ENull \<notin> set xs | _ \<Rightarrow> False)"

definition field_of :: "('a \<Rightarrow> jsval) \<Rightarrow> 'a element \<Rightarrow> jsval" where
  "field_of f e = (case e of EObj x \<Rightarrow> f x | _ \<Rightarrow> JUndefined)"

section \<open>The job launcher\<close>

text \<open>
  \<^verbatim>\<open>String.prototype.trim\<close> removes white space and line terminators from both
  ends. \<open>ws_codes\<close> lists their UTF-8 encodings: U+0009 to U+000D, U+0020, U+00A0,
  U+1680, U+2000 to U+200A, U+2028, U+2029, U+202F, U+205F, U+3000, U+FEFF.
\<close>

definition ws_codes :: "string list" where
  "ws_codes =
     [[CHR 0x09], [CHR 0x0A], [CHR 0x0B], [CHR 0x0C], [CHR 0x0D], [CHR 0x20],
      [CHR 0xC2, CHR 0xA0],
      [CHR 0xE1, CHR 0x9A, CHR 0x80],
      [CHR 0xE2, CHR 0x80, CHR 0x80], [CHR 0xE2, CHR 0x80, CHR 0x81],
      [CHR 0xE2, CHR 0x80, CHR 0x82], [CHR 0xE2, CHR 0x80, CHR 0x83],
      [CHR 0xE2, CHR 0x80, CHR 0x84], [CHR 0xE2, CHR 0x80, CHR 0x85],
      [CHR 0xE2, CHR 0x80, CHR 0x86], [CHR 0xE2, CHR 0x80, CHR 0x87],
      [CHR 0xE2, CHR 0x80, CHR 0x88], [CHR 0xE2, CHR 0x80, CHR 0x89],
      [CHR 0xE2, CHR 0x80, CHR 0x8A],
      [CHR 0xE2, CHR 0x80, CHR 0xA8], [CHR 0xE2, CHR 0x80, CHR 0xA9],
      [CHR 0xE2, CHR 0x80, CHR 0xAF],
      [CHR 0xE2, CHR 0x81, CHR 0x9F],
      [CHR 0xE3, CHR 0x80, CHR 0x80],
      [CHR 0xEF, CHR 0xBB, CHR 0xBF]]"

text \<open>Remove from the front, as long as one of the codes is a prefix.\<close>

function strip :: "string list \<Rightarrow> string \<Rightarrow> string" where
  "strip codes s =
     (case find (\<lambda>w. w \<noteq> [] \<and> startsWith s w) codes of
        None \<Rightarrow> s
      | Some w \<Rightarrow> strip codes (drop (length w) s))"
  by pat_completeness auto
termination
proof (relation "measure (\<lambda>(codes, s). length s)")
  show "wf (measure (\<lambda>(codes, s). length s))" by simp
next
  fix codes :: "string list" and s w :: string
  assume "find (\<lambda>w. w \<noteq> [] \<and> startsWith s w) codes = Some w"
  then have "w \<noteq> []" and "startsWith s w"
    by (auto simp: find_Some_iff)
  then have "s \<noteq> []"
    by (cases s; cases w) auto
  with \<open>w \<noteq> []\<close> show "((codes, drop (length w) s), (codes, s)) \<in> measure (\<lambda>(codes, s). length s)"
    by simp
qed

declare strip.simps [simp del]

definition trimStart :: "string \<Rightarrow> string" where
  "trimStart s = strip ws_codes s"

definition trimEnd :: "string \<Rightarrow> string" where
  "trimEnd s = rev (strip (map rev ws_codes) (rev s))"

definition trim :: "string \<Rightarrow> string" where
  "trim s = trimEnd (trimStart s)"

text \<open>The state variables of the \<^verbatim>\<open>Dashboard\<close> component that \<^verbatim>\<open>analyze\<close> uses
  (\<open>d_loading\<close>, \<open>d_error\<close> and \<open>d_token\<close> are its \<^verbatim>\<open>loading\<close>, \<^verbatim>\<open>error\<close> and
  \<^verbatim>\<open>token\<close>).\<close>

record dash_state =
  selectedRepo :: string
  customRepo :: string
  d_loading :: bool
  d_error :: jsval
  jobId :: "string option"
  hosting :: "string option"
  apiKey :: string
  modelPreference :: string
  analysisMode :: string
  d_token :: "string option"
  isAnalyzing :: bool

text \<open>The request body; \<open>repo_key\<close> is the computed key under which \<open>repo\<close> is sent.\<close>

record analyze_payload =
  repo_key :: string
  repo :: string
  access_token :: "string option"
  auto_issue :: bool
  auto_pr :: bool
  hosting_provider :: "string option"
  gemini_api_key :: string
  model_preference :: string

text \<open>
  The effects of \<^verbatim>\<open>analyze\<close>: the \<^verbatim>\<open>POST\<close>, and the timer that after the
  given delay clears \<^verbatim>\<open>isAnalyzing\<close> and pushes the given route.
\<close>

datatype dash_effect = DPost string analyze_payload | SetTimeout nat string

datatype analyze_outcome = Submitted string | Refused failure

definition rate_limit_message :: string where
  "rate_limit_message =
     [CHR 0xE2, CHR 0x9A, CHR 0xA0, CHR 0xEF, CHR 0xB8, CHR 0x8F] @
     '' Rate Limit Exceeded (429). The Gemini API is currently busy. Please wait a minute and try again, or use a different API key.''"

text \<open>\<^verbatim>\<open>err?.response?.status\<close>\<close>

definition status_of :: "failure \<Rightarrow> int option" where
  "status_of err = map_option http_status (response err)"

text \<open>The \<^verbatim>\<open>detail\<close> that the \<^verbatim>\<open>catch\<close> of \<^verbatim>\<open>analyze\<close> first computes.\<close>

definition error_detail :: "failure \<Rightarrow> jsval" where
  "error_detail err = js_or (detail_of err) (js_or (message err) (JStr ''Analysis failed''))"

definition is_rate_limited :: "failure \<Rightarrow> bool" where
  "is_rate_limited err =
     (status_of err = Some 429 \<or>
      (case error_detail err of JStr t \<Rightarrow> str_includes t ''429'' | _ \<Rightarrow> False))"

text \<open>
  The value that the \<^verbatim>\<open>catch\<close> passes to \<^verbatim>\<open>setError\<close>: a value whose
  \<^verbatim>\<open>typeof\<close> is \<^verbatim>\<open>"object"\<close> (an array, an object, \<^verbatim>\<open>null\<close>) goes
  through \<^verbatim>\<open>JSON.stringify\<close>.
\<close>

definition surfaced_error :: "failure \<Rightarrow> jsval" where
  "surfaced_error err =
     (let detail' = (if is_rate_limited err then JStr rate_limit_message else error_detail err)
      in (case detail' of
            JArr t \<Rightarrow> JStr (''['' @ t @ '']'')
          | JObj t \<Rightarrow> JStr (''{'' @ t @ ''}'')
          | JNull \<Rightarrow> JStr ''null''
          | _ \<Rightarrow> detail'))"

definition analyze :: "analyze_outcome \<Rightarrow> dash_state \<Rightarrow> dash_state \<times> dash_effect list" where
  "analyze outcome s =
     (if \<not> truthy_str (d_token s) then
        (s\<lparr>d_error := JStr ''Not authenticated. Please login first.''\<rparr>, [])
      else if analysisMode s = ''your-repos'' \<and> selectedRepo s = [] then
        (s\<lparr>d_error := JStr ''Please select a repository''\<rparr>, [])
      else if analysisMode s \<noteq> ''your-repos'' \<and> trim (customRepo s) = [] then
        (s\<lparr>d_error := JStr ''Please enter a public repository (owner/repo)''\<rparr>, [])
      else
        (let repo' = (if analysisMode s = ''your-repos'' then selectedRepo s else customRepo s);
             s1 = s\<lparr>d_loading := True, isAnalyzing := True, d_error := JStr []\<rparr>;
             endpoint = (if analysisMode s = ''your-repos'' then ''/analyze-repo'' else ''/analyze'');
             payload =
               \<lparr>repo_key = (if analysisMode s = ''your-repos'' then ''repo_full_name''
                            else ''repo_url''),
                repo = repo', access_token = d_token s, auto_issue = False, auto_pr = False,
                hosting_provider = hosting s, gemini_api_key = apiKey s,
                model_preference = modelPreference s\<rparr>
         in (case outcome of
               Submitted job \<Rightarrow>
                 (s1\<lparr>jobId := Some job, selectedRepo := [], customRepo := []\<rparr>,
                  [DPost (''/api'' @ endpoint) payload,
                   SetTimeout 2000 (''/results?job_id='' @ job)])
             | Refused err \<Rightarrow>
                 (s1\<lparr>isAnalyzing := False, d_error := surfaced_error err, d_loading := False\<rparr>,
                  [DPost (''/api'' @ endpoint) payload]))))"

fun is_dpost :: "dash_effect \<Rightarrow> bool" where
  "is_dpost (DPost path body) = True"
| "is_dpost (SetTimeout delay route) = False"

section \<open>The session store\<close>

text \<open>\<^verbatim>\<open>localStorage\<close>: a map from keys to strings.\<close>

type_synonym storage = "string \<rightharpoonup> string"

definition removeItem :: "string \<Rightarrow> storage \<Rightarrow> storage" where
  "removeItem k st = st(k := None)"

text \<open>The authentication callback stores the session; it does nothing without both
  parameters.\<close>

definition callback_store :: "string option \<Rightarrow> string option \<Rightarrow> storage \<Rightarrow> storage" where
  "callback_store tok user st =
     (case (tok, user) of
        (Some t, Some u) \<Rightarrow>
          if t = [] \<or> u = [] then st
          else st(''access_token'' \<mapsto> t, ''user_login'' \<mapsto> u, ''user_name'' \<mapsto> u)
      | _ \<Rightarrow> st)"

text \<open>The two sign-out handlers: the storage they leave, and the route they push.\<close>

definition handleLogout_results :: "storage \<Rightarrow> storage \<times> string" where
  "handleLogout_results st =
     (removeItem ''user_login''
        (removeItem ''user_id''
           (removeItem ''user_name''
              (removeItem ''user_email''
                 (removeItem ''access_token'' st)))), ''/'')"

definition handleLogout_dashboard :: "storage \<Rightarrow> storage \<times> string" where
  "handleLogout_dashboard st = (Map.empty, ''/'')"

text \<open>
  What the pages do to the storage: the authentication callback with its two query
  parameters, and the two sign-outs. \<open>run_events\<close> is the storage after a sequence of
  them; a browser that has not yet opened the application starts from the empty one.
\<close>

datatype storage_event =
  Callback "string option" "string option" | LogoutResults | LogoutDashboard

fun apply_event :: "storage_event \<Rightarrow> storage \<Rightarrow> storage" where
  "apply_event (Callback tok user) st = callback_store tok user st"
| "apply_event LogoutResults st = fst (handleLogout_results st)"
| "apply_event LogoutDashboard st = fst (handleLogout_dashboard st)"

fun run_events :: "storage_event list \<Rightarrow> storage \<Rightarrow> storage" where
  "run_events [] st = st"
| "run_events (e # es) st = run_events es (apply_event e st)"

text \<open>The session keys that the pages read when they mount.\<close>

definition session_keys :: "string list" where
  "session_keys = [''access_token'', ''user_name'', ''user_avatar'']"

definition initial_dash :: dash_state where
  "initial_dash =
     \<lparr>selectedRepo = [], customRepo = [], d_loading = False, d_error = JStr [],
      jobId = None, hosting = None, apiKey = [], modelPreference = ''gemini-2.5-flash'',
      analysisMode = ''your-repos'', d_token = None, isAnalyzing = False\<rparr>"

section \<open>Sample data\<close>

text \<open>The object \<^verbatim>\<open>{}\<close>, the issue \<^verbatim>\<open>{severity: s}\<close>, the enhancement
  \<^verbatim>\<open>{type: t}\<close>, the file suggestion \<^verbatim>\<open>{priority: p}\<close>, and a run of responses
  that all have the status \<^verbatim>\<open>running\<close>.\<close>

definition empty_data :: analysis_data where
  "empty_data =
     \<lparr>status = JUndefined, resp_error = None, issues = Absent, enhancements = Absent,
      file_suggestions = Absent, files = None, total_lines = None, patch = None,
      enhancement_patch = None, deployment_patch = None\<rparr>"

definition with_severity :: "string \<Rightarrow> issue" where
  "with_severity s =
     \<lparr>title = JUndefined, description = JUndefined, issue_type = JUndefined,
      severity = JStr s, issue_file = JUndefined, issue_line = JUndefined\<rparr>"

definition with_type :: "string \<Rightarrow> enhancement" where
  "with_type t = \<lparr>enh_title = JUndefined, enh_type = JStr t\<rparr>"

definition with_priority :: "string \<Rightarrow> file_suggestion" where
  "with_priority p = \<lparr>fs_file = JUndefined, priority = JStr p\<rparr>"

definition running_ticks :: "analysis_data list \<Rightarrow> get_outcome list" where
  "running_ticks ds = map (\<lambda>d. Resolved (d\<lparr>status := JStr ''running''\<rparr>)) ds"

text \<open>States of the results page: a fetched result that has all three patches, without
  and with a credential; and a credential without a result.\<close>

definition signed_out_with_patches :: results_state where
  "signed_out_with_patches =
     (initial_results (Some ''job-1''))
       \<lparr>result := Some (empty_data\<lparr>patch := Some ''diff --git a/x b/x'',
                                    enhancement_patch := Some ''diff --git a/y b/y'',
                                    deployment_patch := Some ''diff --git a/z b/z''\<rparr>),
        loading := False, isMounted := True, analysisProgress := 100\<rparr>"

definition signed_in_with_patches :: results_state where
  "signed_in_with_patches = signed_out_with_patches\<lparr>token := Some ''tok''\<rparr>"

definition signed_in_no_result :: results_state where
  "signed_in_no_result = (initial_results (Some ''job-1''))\<lparr>token := Some ''tok'', isMounted := True\<rparr>"

text \<open>Rejected requests: HTTP 429; HTTP 500 with the marker in the detail; HTTP 404 with
  a detail; no response at all.\<close>

definition too_many_requests :: failure where
  "too_many_requests =
     \<lparr>response = Some \<lparr>http_status = 429, detail = JStr ''Too Many Requests''\<rparr>,
      message = JStr ''Request failed with status code 429''\<rparr>"

definition marker_in_detail :: failure where
  "marker_in_detail =
     \<lparr>response = Some \<lparr>http_status = 500, detail = JStr ''Gemini error 429: quota exceeded''\<rparr>,
      message = JStr ''Request failed with status code 500''\<rparr>"

definition not_found :: failure where
  "not_found =
     \<lparr>response = Some \<lparr>http_status = 404, detail = JStr ''Repository not found''\<rparr>,
      message = JStr ''Request failed with status code 404''\<rparr>"

definition network_error :: failure where
  "network_error = \<lparr>response = None, message = JStr ''Network Error''\<rparr>"

text \<open>A dashboard ready to submit an owned repository.\<close>

definition ready_dash :: dash_state where
  "ready_dash = initial_dash\<lparr>selectedRepo := ''octocat/hello-world'', d_token := Some ''tok''\<rparr>"

section \<open>Properties of the job poller\<close>

lemma fetchResults_running:
  "fetchResults ar (Resolved (d\<lparr>status := JStr ''running''\<rparr>)) s =
     (s\<lparr>loading := True, analysisProgress := min (analysisProgress s + 10) 90\<rparr>, ar)"
  by (simp add: fetchResults_def fetchResults_request_def fetchResults_response_def)

lemma poll_running_length:
  "length (poll True (running_ticks ds) s) = length ds"
  by (induction ds arbitrary: s) (simp_all add: running_ticks_def fetchResults_running)

lemma poll_running_nth:
  "k < length ds \<Longrightarrow>
     analysisProgress (poll True (running_ticks ds) s ! k) =
       min (analysisProgress s + 10 * (int k + 1)) 90"
proof (induction ds arbitrary: s k)
  case Nil
  then show ?case by simp
next
  case (Cons d ds)
  let ?s' = "s\<lparr>loading := True, analysisProgress := min (analysisProgress s + 10) 90\<rparr>"
  have step: "poll True (running_ticks (d # ds)) s = ?s' # poll True (running_ticks ds) ?s'"
    by (simp add: running_ticks_def fetchResults_running)
  show ?case
  proof (cases k)
    case 0
    then show ?thesis by (simp add: step)
  next
    case (Suc j)
    with Cons.prems have "j < length ds" by simp
    then have "analysisProgress (poll True (running_ticks ds) ?s' ! j) =
                 min (analysisProgress ?s' + 10 * (int j + 1)) 90"
      by (rule Cons.IH)
    with Suc show ?thesis by (simp add: step)
  qed
qed

lemma fetchResults_progress:
  "analysisProgress (fst (fetchResults ar outcome s)) =
     (case outcome of
        Resolved d \<Rightarrow>
          if status d = JStr ''running'' then min (analysisProgress s + 10) 90
          else if status d = JStr ''error'' then 0 else 100
      | Rejected err \<Rightarrow> 0)"
  by (simp add: fetchResults_def fetchResults_request_def fetchResults_response_def
           split: get_outcome.splits)

text \<open>
  C1, as the claim states it, fails. The component is mounted and polls job \<open>job-1\<close>; a
  tick has sent its request (\<open>fetchResults_request\<close>); the cleanup of the effect runs
  (\<open>cleanup\<close>); then the response arrives. With a status that is neither
  \<^verbatim>\<open>running\<close> nor \<^verbatim>\<open>error\<close>, the tick in flight stores the payload as the
  result, clears \<open>loading\<close> and sets the progress to 100: the state is not the one the
  cancellation left. With the status \<^verbatim>\<open>error\<close>, or when the request fails, it
  sets the error, which was empty; with the status \<^verbatim>\<open>running\<close> it raises the
  progress from 0 to 10.
\<close>

theorem cancel_in_flight_counterexample:
  "fetchResults_response True (Resolved (empty_data\<lparr>status := JStr ''done''\<rparr>))
     (cleanup (fetchResults_request ((initial_results (Some ''job-1''))\<lparr>isMounted := True\<rparr>))) =
   ((initial_results (Some ''job-1''))
      \<lparr>result := Some (empty_data\<lparr>status := JStr ''done''\<rparr>), loading := False,
        isMounted := True, autoRefresh := False, analysisProgress := 100\<rparr>, False) \<and>
   fst (fetchResults_response True (Resolved (empty_data\<lparr>status := JStr ''done''\<rparr>))
     (cleanup (fetchResults_request ((initial_results (Some ''job-1''))\<lparr>isMounted := True\<rparr>)))) \<noteq>
   cleanup (fetchResults_request ((initial_results (Some ''job-1''))\<lparr>isMounted := True\<rparr>)) \<and>
   error (cleanup (fetchResults_request ((initial_results (Some ''job-1''))\<lparr>isMounted := True\<rparr>))) =
     JStr [] \<and>
   error (fst (fetchResults_response True
     (Resolved (empty_data\<lparr>status := JStr ''error'', resp_error := Some ''clone failed''\<rparr>))
     (cleanup (fetchResults_request ((initial_results (Some ''job-1''))\<lparr>isMounted := True\<rparr>))))) =
     JStr ''Analysis failed: clone failed'' \<and>
   error (fst (fetchResults_response True (Rejected network_error)
     (cleanup (fetchResults_request ((initial_results (Some ''job-1''))\<lparr>isMounted := True\<rparr>))))) =
     JStr ''Network Error'' \<and>
   analysisProgress
     (cleanup (fetchResults_request ((initial_results (Some ''job-1''))\<lparr>isMounted := True\<rparr>))) = 0 \<and>
   analysisProgress (fst (fetchResults_response True
     (Resolved (empty_data\<lparr>status := JStr ''running''\<rparr>))
     (cleanup (fetchResults_request ((initial_results (Some ''job-1''))\<lparr>isMounted := True\<rparr>))))) =
     10"
  by (simp add: fetchResults_response_def fetchResults_request_def cleanup_def
        initial_results_def empty_data_def template_def network_error_def detail_of_def js_or_def)

text \<open>
  C1, amended. Cancelling the poller does not keep a tick that is already in flight
  from applying its update. When the response of such a tick arrives after the
  cancellation, the tick changes the state as a tick that was not cancelled does: on a
  status other than \<^verbatim>\<open>running\<close> and \<^verbatim>\<open>error\<close> it stores the payload as the
  result, clears \<open>loading\<close> and sets the progress to 100; on the status \<^verbatim>\<open>error\<close>,
  and when the request fails, it sets the error, clears \<open>loading\<close> and sets the progress
  to 0; on the status \<^verbatim>\<open>running\<close> it raises the progress by 10, up to 90.
\<close>

theorem in_flight_tick_still_updates:
  "(status d \<noteq> JStr ''running'' \<and> status d \<noteq> JStr ''error'' \<longrightarrow>
      fst (fetchResults_response ar (Resolved d) (cleanup s)) =
        s\<lparr>result := Some d, loading := False, autoRefresh := False, analysisProgress := 100\<rparr>) \<and>
   fst (fetchResults_response ar (Resolved (d\<lparr>status := JStr ''error''\<rparr>)) (cleanup s)) =
     s\<lparr>loading := False, error := JStr (''Analysis failed: '' @ template (resp_error d)),
       autoRefresh := False, analysisProgress := 0\<rparr> \<and>
   fst (fetchResults_response ar (Rejected err) (cleanup s)) =
     s\<lparr>loading := False,
       error := js_or (detail_of err) (js_or (message err) (JStr ''Failed to fetch results'')),
       autoRefresh := False, analysisProgress := 0\<rparr> \<and>
   fst (fetchResults_response ar (Resolved (d\<lparr>status := JStr ''running''\<rparr>)) (cleanup s)) =
     s\<lparr>autoRefresh := False, analysisProgress := min (analysisProgress s + 10) 90\<rparr> \<and>
   fst (fetchResults_response ar outcome (cleanup s)) =
     cleanup (fst (fetchResults_response ar outcome s))"
  by (auto simp: fetchResults_response_def cleanup_def split: get_outcome.splits)

theorem in_flight_tick_still_updates_witness:
  "status (empty_data\<lparr>status := JStr ''done''\<rparr>) \<noteq> JStr ''running'' \<and>
   status (empty_data\<lparr>status := JStr ''done''\<rparr>) \<noteq> JStr ''error'' \<and>
   fst (fetchResults_response True (Resolved (empty_data\<lparr>status := JStr ''done''\<rparr>))
          (cleanup (fetchResults_request (initial_results (Some ''job-1''))))) =
     (initial_results (Some ''job-1''))
       \<lparr>result := Some (empty_data\<lparr>status := JStr ''done''\<rparr>), loading := False,
         autoRefresh := False, analysisProgress := 100\<rparr>"
  using in_flight_tick_still_updates
          [of "empty_data\<lparr>status := JStr ''done''\<rparr>" True
              "fetchResults_request (initial_results (Some ''job-1''))" network_error
              "Rejected network_error"]
  by (simp add: empty_data_def fetchResults_request_def)

text \<open>
  C2, as the claim states it, fails. Ten ticks in a row answer \<^verbatim>\<open>running\<close>, from
  the initial state: after the ninth tick the progress is 90, and after the tenth it
  is 90 again, not 100.
\<close>

theorem strict_increase_counterexample:
  "analysisProgress (poll True (running_ticks (replicate 10 empty_data))
                       (initial_results (Some ''job-1'')) ! 8) = 90 \<and>
   analysisProgress (poll True (running_ticks (replicate 10 empty_data))
                       (initial_results (Some ''job-1'')) ! 9) = 90 \<and>
   \<not> (analysisProgress (poll True (running_ticks (replicate 10 empty_data))
                          (initial_results (Some ''job-1'')) ! 9) =
       analysisProgress (poll True (running_ticks (replicate 10 empty_data))
                          (initial_results (Some ''job-1'')) ! 8) + 10)"
  by (simp add: poll_running_nth initial_results_def)

text \<open>
  C2, amended. In a polling run whose ticks all answer \<^verbatim>\<open>running\<close>, every tick
  runs, and the progress after tick \<open>k + 1\<close> is the smaller of the starting progress
  plus \<open>10 * (k + 1)\<close> and 90: from the initial progress 0 it goes up by 10 at each of
  the first nine ticks and stays at 90 from then on. A \<^verbatim>\<open>running\<close> tick that starts
  at a progress of at most 90 never lowers it and never exceeds 90. Any tick sets the
  progress to that capped value (status \<^verbatim>\<open>running\<close>), to 0 (status \<^verbatim>\<open>error\<close>, or
  a rejected request) or to 100 (any other status).
\<close>

theorem running_progress_capped:
  "length (poll True (running_ticks ds) s) = length ds \<and>
   (\<forall>k < length ds.
      analysisProgress (poll True (running_ticks ds) s ! k) =
        min (analysisProgress s + 10 * (int k + 1)) 90) \<and>
   (analysisProgress s = 0 \<longrightarrow>
      (\<forall>k < length ds.
         analysisProgress (poll True (running_ticks ds) s ! k) =
           (if k < 9 then 10 * (int k + 1) else 90))) \<and>
   (analysisProgress s \<le> 90 \<longrightarrow>
      analysisProgress s \<le>
        analysisProgress (fst (fetchResults ar (Resolved (d\<lparr>status := JStr ''running''\<rparr>)) s)) \<and>
      analysisProgress (fst (fetchResults ar (Resolved (d\<lparr>status := JStr ''running''\<rparr>)) s))
        \<le> 90) \<and>
   analysisProgress (fst (fetchResults ar outcome s)) =
     (case outcome of
        Resolved d \<Rightarrow>
          if status d = JStr ''running'' then min (analysisProgress s + 10) 90
          else if status d = JStr ''error'' then 0 else 100
      | Rejected err \<Rightarrow> 0)"
proof (intro conjI)
  show "length (poll True (running_ticks ds) s) = length ds"
    by (rule poll_running_length)
  show "\<forall>k < length ds.
      analysisProgress (poll True (running_ticks ds) s ! k) =
        min (analysisProgress s + 10 * (int k + 1)) 90"
    by (simp add: poll_running_nth)
  show "analysisProgress s = 0 \<longrightarrow>
      (\<forall>k < length ds.
         analysisProgress (poll True (running_ticks ds) s ! k) =
           (if k < 9 then 10 * (int k + 1) else 90))"
    by (auto simp: poll_running_nth)
  show "analysisProgress s \<le> 90 \<longrightarrow>
      analysisProgress s \<le>
        analysisProgress (fst (fetchResults ar (Resolved (d\<lparr>status := JStr ''running''\<rparr>)) s)) \<and>
      analysisProgress (fst (fetchResults ar (Resolved (d\<lparr>status := JStr ''running''\<rparr>)) s))
        \<le> 90"
    by (simp add: fetchResults_running)
  show "analysisProgress (fst (fetchResults ar outcome s)) =
     (case outcome of
        Resolved d \<Rightarrow>
          if status d = JStr ''running'' then min (analysisProgress s + 10) 90
          else if status d = JStr ''error'' then 0 else 100
      | Rejected err \<Rightarrow> 0)"
    by (rule fetchResults_progress)
qed

theorem running_progress_capped_witness:
  "analysisProgress (initial_results (Some ''job-1'')) = 0 \<and>
   analysisProgress (initial_results (Some ''job-1'')) \<le> 90 \<and>
   (0::nat) < length (replicate 10 empty_data) \<and>
   (8::nat) < length (replicate 10 empty_data) \<and>
   (9::nat) < length (replicate 10 empty_data) \<and>
   length (poll True (running_ticks (replicate 10 empty_data))
             (initial_results (Some ''job-1''))) = 10 \<and>
   analysisProgress (poll True (running_ticks (replicate 10 empty_data))
                       (initial_results (Some ''job-1'')) ! 0) = 10 \<and>
   analysisProgress (poll True (running_ticks (replicate 10 empty_data))
                       (initial_results (Some ''job-1'')) ! 8) = 90 \<and>
   analysisProgress (poll True (running_ticks (replicate 10 empty_data))
                       (initial_results (Some ''job-1'')) ! 9) = 90 \<and>
   analysisProgress (fst (fetchResults True (Resolved (empty_data\<lparr>status := JStr ''running''\<rparr>))
                            (initial_results (Some ''job-1'')))) = 10"
  using running_progress_capped [of "replicate 10 empty_data" "initial_results (Some ''job-1'')"
          True empty_data "Resolved (empty_data\<lparr>status := JStr ''running''\<rparr>)"]
  by (simp add: initial_results_def)

text \<open>
  C3. A tick whose response has a status other than \<^verbatim>\<open>running\<close> and
  \<^verbatim>\<open>error\<close> stores the payload it received as the result, clears \<open>loading\<close>, sets
  the progress to 100 and schedules nothing: the run ends with that tick, whatever
  responses would follow. In particular a run that answers \<^verbatim>\<open>running\<close> and then
  such a payload ends with the progress at 100 and that payload as the result.
\<close>

theorem fetchResults_other_status_completes:
  "status d \<noteq> JStr ''running'' \<Longrightarrow> status d \<noteq> JStr ''error'' \<Longrightarrow>
     fetchResults ar (Resolved d) s =
       (s\<lparr>result := Some d, loading := False, analysisProgress := 100\<rparr>, False) \<and>
     poll ar (Resolved d # rest) s =
       [s\<lparr>result := Some d, loading := False, analysisProgress := 100\<rparr>] \<and>
     poll True (Resolved (r\<lparr>status := JStr ''running''\<rparr>) # Resolved d # rest) s =
       [s\<lparr>loading := True, analysisProgress := min (analysisProgress s + 10) 90\<rparr>,
        s\<lparr>result := Some d, loading := False, analysisProgress := 100\<rparr>]"
  by (simp add: fetchResults_def fetchResults_request_def fetchResults_response_def)

theorem fetchResults_other_status_completes_witness:
  "status (empty_data\<lparr>status := JStr ''done''\<rparr>) \<noteq> JStr ''running'' \<and>
   status (empty_data\<lparr>status := JStr ''done''\<rparr>) \<noteq> JStr ''error'' \<and>
   poll True [Resolved (empty_data\<lparr>status := JStr ''running''\<rparr>),
              Resolved (empty_data\<lparr>status := JStr ''done''\<rparr>)]
        (initial_results (Some ''job-1'')) =
     [(initial_results (Some ''job-1''))\<lparr>loading := True, analysisProgress := 10\<rparr>,
      (initial_results (Some ''job-1''))
        \<lparr>result := Some (empty_data\<lparr>status := JStr ''done''\<rparr>), loading := False,
          analysisProgress := 100\<rparr>] \<and>
   status empty_data \<noteq> JStr ''running'' \<and> status empty_data \<noteq> JStr ''error'' \<and>
   fetchResults False (Resolved empty_data) (initial_results None) =
     ((initial_results None)\<lparr>result := Some empty_data, loading := False,
        analysisProgress := 100\<rparr>, False)"
  using fetchResults_other_status_completes
          [of "empty_data\<lparr>status := JStr ''done''\<rparr>" True "initial_results (Some ''job-1'')"
              "[]" empty_data]
        fetchResults_other_status_completes
          [of empty_data False "initial_results None" "[]" empty_data]
  by (simp add: empty_data_def initial_results_def)

text \<open>
  C4. A run whose ticks answer \<^verbatim>\<open>running\<close>, \<^verbatim>\<open>running\<close>, \<^verbatim>\<open>error\<close> with
  the error text \<open>e\<close> consists of exactly three ticks, whatever responses would follow.
  The first two leave \<open>error\<close> as it was; the third sets it to the text
  \<^verbatim>\<open>Analysis failed: \<close> followed by \<open>e\<close>, clears \<open>loading\<close> and sets the progress
  to 0.
\<close>

theorem running_running_error:
  "poll True (Resolved (d1\<lparr>status := JStr ''running''\<rparr>) #
              Resolved (d2\<lparr>status := JStr ''running''\<rparr>) #
              Resolved (d3\<lparr>status := JStr ''error'', resp_error := Some e\<rparr>) # rest) s =
     [s\<lparr>loading := True, analysisProgress := min (analysisProgress s + 10) 90\<rparr>,
      s\<lparr>loading := True, analysisProgress := min (min (analysisProgress s + 10) 90 + 10) 90\<rparr>,
      s\<lparr>loading := False, error := JStr (''Analysis failed: '' @ e), analysisProgress := 0\<rparr>] \<and>
   map error
     (poll True (Resolved (d1\<lparr>status := JStr ''running''\<rparr>) #
                 Resolved (d2\<lparr>status := JStr ''running''\<rparr>) #
                 Resolved (d3\<lparr>status := JStr ''error'', resp_error := Some e\<rparr>) # rest) s) =
     [error s, error s, JStr (''Analysis failed: '' @ e)]"
  by (simp add: fetchResults_def fetchResults_request_def fetchResults_response_def template_def)

section \<open>Properties of the result aggregator\<close>

lemma js_filter_field:
  "js_filter (\<lambda>e. and_then (read_field f e) (\<lambda>x. Inr (x = JStr c))) xs =
     (if ENull \<in> set xs then Inl TypeError
      else Inr (filter (\<lambda>e. field_of f e = JStr c) xs))"
proof (induction xs)
  case Nil
  then show ?case by simp
next
  case (Cons e xs)
  then show ?case
    by (cases e) (simp_all add: and_then_def read_field_def field_of_def)
qed

lemma filter_length_default:
  "filter_length (default_empty v) f c =
     (if usable v then Inr (length (filter (\<lambda>e. field_of f e = JStr c) (items v)))
      else Inl TypeError)"
proof (cases v)
  case (Items xs)
  have "filter_length (Items xs) f c =
          (if ENull \<in> set xs then Inl TypeError
           else Inr (length (filter (\<lambda>e. field_of f e = JStr c) xs)))"
    unfolding filter_length_def by (simp add: js_filter_field) (simp add: and_then_def)
  with Items show ?thesis
    by (simp add: default_empty_def usable_def items_def)
qed (simp_all add: filter_length_def default_empty_def usable_def items_def and_then_def)

lemma items_default: "usable v \<Longrightarrow> items (default_empty v) = items v"
  by (cases v) (simp_all add: default_empty_def items_def usable_def)

lemma calculateStats_value:
  "calculateStats (Some r) =
     (if usable (issues r) \<and> usable (enhancements r) \<and> usable (file_suggestions r) then
        Inr (Some
          \<lparr>highSeverity = length (filter (\<lambda>e. field_of severity e = JStr ''high'') (items (issues r))),
           mediumSeverity =
             length (filter (\<lambda>e. field_of severity e = JStr ''medium'') (items (issues r))),
           lowSeverity = length (filter (\<lambda>e. field_of severity e = JStr ''low'') (items (issues r))),
           performanceEnhancements =
             length (filter (\<lambda>e. field_of enh_type e = JStr ''performance'')
                       (items (enhancements r))),
           securityEnhancements =
             length (filter (\<lambda>e. field_of enh_type e = JStr ''security'') (items (enhancements r))),
           maintainabilityEnhancements =
             length (filter (\<lambda>e. field_of enh_type e = JStr ''maintainability'')
                       (items (enhancements r))),
           highPriorityFiles =
             length (filter (\<lambda>e. field_of priority e = JStr ''high'') (items (file_suggestions r))),
           mediumPriorityFiles =
             length (filter (\<lambda>e. field_of priority e = JStr ''medium'')
                       (items (file_suggestions r))),
           lowPriorityFiles =
             length (filter (\<lambda>e. field_of priority e = JStr ''low'') (items (file_suggestions r))),
           totalFiles = (case files r of None \<Rightarrow> 0 | Some xs \<Rightarrow> length xs),
           analyzedLines = (case total_lines r of None \<Rightarrow> 0 | Some n \<Rightarrow> n),
           totalIssues = length (items (issues r)),
           totalEnhancements = length (items (enhancements r))\<rparr>)
      else Inl TypeError)"
  by (simp add: calculateStats_def Let_def filter_length_default and_then_def items_default
        split: option.splits)

lemma severity_partition:
  "length xs =
     length (filter (\<lambda>e. field_of severity e = JStr ''high'') xs) +
     length (filter (\<lambda>e. field_of severity e = JStr ''medium'') xs) +
     length (filter (\<lambda>e. field_of severity e = JStr ''low'') xs) +
     length (filter (\<lambda>e. field_of severity e \<notin> {JStr ''high'', JStr ''medium'', JStr ''low''}) xs)"
  by (induction xs) auto

lemma no_other_severity:
  "(length (filter (\<lambda>e. field_of severity e \<notin> {JStr ''high'', JStr ''medium'', JStr ''low''}) xs) = 0) =
   (\<forall>e \<in> set xs. field_of severity e \<in> {JStr ''high'', JStr ''medium'', JStr ''low''})"
  by (simp add: filter_empty_conv)

lemma calculateStats_Some:
  "calculateStats (Some r) = Inr (Some st) \<Longrightarrow>
     highSeverity st = length (filter (\<lambda>e. field_of severity e = JStr ''high'') (items (issues r))) \<and>
     mediumSeverity st =
       length (filter (\<lambda>e. field_of severity e = JStr ''medium'') (items (issues r))) \<and>
     lowSeverity st = length (filter (\<lambda>e. field_of severity e = JStr ''low'') (items (issues r))) \<and>
     totalIssues st = length (items (issues r))"
  by (auto simp: calculateStats_value split: if_splits)

text \<open>
  C5, as the claim states it, fails: \<open>calculateStats\<close> throws on some result objects.
  On \<^verbatim>\<open>{issues: null}\<close> the destructuring default does not apply and
  \<^verbatim>\<open>issues.filter\<close> throws; on a result whose \<^verbatim>\<open>enhancements\<close> is a value
  without a \<^verbatim>\<open>filter\<close> method the call throws; on the file suggestions
  \<^verbatim>\<open>[{priority:"high"}, null]\<close> the callback throws at the second element.
\<close>

theorem calculateStats_type_error_counterexample:
  "calculateStats (Some (empty_data\<lparr>issues := Null\<rparr>)) = Inl TypeError \<and>
   calculateStats (Some (empty_data\<lparr>enhancements := NotArray\<rparr>)) = Inl TypeError \<and>
   calculateStats (Some (empty_data\<lparr>file_suggestions :=
       Items [EObj (with_priority ''high''), ENull]\<rparr>)) = Inl TypeError"
  by (simp add: calculateStats_def Let_def empty_data_def default_empty_def filter_length_def
        and_then_def read_field_def with_priority_def)

text \<open>
  C5, amended. \<open>calculateStats\<close> is a function of the result alone. On a result object
  it returns statistics, without throwing, exactly when each of \<^verbatim>\<open>issues\<close>,
  \<^verbatim>\<open>enhancements\<close> and \<^verbatim>\<open>file_suggestions\<close> is absent or an array with no
  \<^verbatim>\<open>null\<close> or \<^verbatim>\<open>undefined\<close> element. Then each count of a present array is
  the number of its elements whose field equals the category; an absent array counts as
  empty, so its counts are 0. The issues
  \<^verbatim>\<open>[{severity:"high"}, {severity:"high"}, {severity:"low"}]\<close> give 2 high,
  0 medium and 1 low.
\<close>

theorem calculateStats_total:
  "((\<exists>st. calculateStats (Some r) = Inr (Some st)) =
      (usable (issues r) \<and> usable (enhancements r) \<and> usable (file_suggestions r))) \<and>
   (usable (issues r) \<and> usable (enhancements r) \<and> usable (file_suggestions r) \<longrightarrow>
    (\<exists>st. calculateStats (Some r) = Inr (Some st) \<and>
     (\<forall>xs. issues r = Items xs \<longrightarrow>
        highSeverity st = length (filter (\<lambda>e. field_of severity e = JStr ''high'') xs) \<and>
        mediumSeverity st = length (filter (\<lambda>e. field_of severity e = JStr ''medium'') xs) \<and>
        lowSeverity st = length (filter (\<lambda>e. field_of severity e = JStr ''low'') xs) \<and>
        totalIssues st = length xs) \<and>
     (issues r = Absent \<longrightarrow>
        highSeverity st = 0 \<and> mediumSeverity st = 0 \<and> lowSeverity st = 0 \<and> totalIssues st = 0) \<and>
     (\<forall>xs. enhancements r = Items xs \<longrightarrow>
        performanceEnhancements st =
          length (filter (\<lambda>e. field_of enh_type e = JStr ''performance'') xs) \<and>
        securityEnhancements st = length (filter (\<lambda>e. field_of enh_type e = JStr ''security'') xs) \<and>
        maintainabilityEnhancements st =
          length (filter (\<lambda>e. field_of enh_type e = JStr ''maintainability'') xs) \<and>
        totalEnhancements st = length xs) \<and>
     (enhancements r = Absent \<longrightarrow>
        performanceEnhancements st = 0 \<and> securityEnhancements st = 0 \<and>
        maintainabilityEnhancements st = 0 \<and> totalEnhancements st = 0) \<and>
     (\<forall>xs. file_suggestions r = Items xs \<longrightarrow>
        highPriorityFiles st = length (filter (\<lambda>e. field_of priority e = JStr ''high'') xs) \<and>
        mediumPriorityFiles st = length (filter (\<lambda>e. field_of priority e = JStr ''medium'') xs) \<and>
        lowPriorityFiles st = length (filter (\<lambda>e. field_of priority e = JStr ''low'') xs)) \<and>
     (file_suggestions r = Absent \<longrightarrow>
        highPriorityFiles st = 0 \<and> mediumPriorityFiles st = 0 \<and> lowPriorityFiles st = 0) \<and>
     (issues r = Items [EObj (with_severity ''high''), EObj (with_severity ''high''),
                        EObj (with_severity ''low'')] \<longrightarrow>
        highSeverity st = 2 \<and> mediumSeverity st = 0 \<and> lowSeverity st = 1)))"
proof (intro conjI impI)
  show "(\<exists>st. calculateStats (Some r) = Inr (Some st)) =
      (usable (issues r) \<and> usable (enhancements r) \<and> usable (file_suggestions r))"
    by (simp add: calculateStats_value)
next
  assume u: "usable (issues r) \<and> usable (enhancements r) \<and> usable (file_suggestions r)"
  show "\<exists>st. calculateStats (Some r) = Inr (Some st) \<and>
     (\<forall>xs. issues r = Items xs \<longrightarrow>
        highSeverity st = length (filter (\<lambda>e. field_of severity e = JStr ''high'') xs) \<and>
        mediumSeverity st = length (filter (\<lambda>e. field_of severity e = JStr ''medium'') xs) \<and>
        lowSeverity st = length (filter (\<lambda>e. field_of severity e = JStr ''low'') xs) \<and>
        totalIssues st = length xs) \<and>
     (issues r = Absent \<longrightarrow>
        highSeverity st = 0 \<and> mediumSeverity st = 0 \<and> lowSeverity st = 0 \<and> totalIssues st = 0) \<and>
     (\<forall>xs. enhancements r = Items xs \<longrightarrow>
        performanceEnhancements st =
          length (filter (\<lambda>e. field_of enh_type e = JStr ''performance'') xs) \<and>
        securityEnhancements st = length (filter (\<lambda>e. field_of enh_type e = JStr ''security'') xs) \<and>
        maintainabilityEnhancements st =
          length (filter (\<lambda>e. field_of enh_type e = JStr ''maintainability'') xs) \<and>
        totalEnhancements st = length xs) \<and>
     (enhancements r = Absent \<longrightarrow>
        performanceEnhancements st = 0 \<and> securityEnhancements st = 0 \<and>
        maintainabilityEnhancements st = 0 \<and> totalEnhancements st = 0) \<and>
     (\<forall>xs. file_suggestions r = Items xs \<longrightarrow>
        highPriorityFiles st = length (filter (\<lambda>e. field_of priority e = JStr ''high'') xs) \<and>
        mediumPriorityFiles st = length (filter (\<lambda>e. field_of priority e = JStr ''medium'') xs) \<and>
        lowPriorityFiles st = length (filter (\<lambda>e. field_of priority e = JStr ''low'') xs)) \<and>
     (file_suggestions r = Absent \<longrightarrow>
        highPriorityFiles st = 0 \<and> mediumPriorityFiles st = 0 \<and> lowPriorityFiles st = 0) \<and>
     (issues r = Items [EObj (with_severity ''high''), EObj (with_severity ''high''),
                        EObj (with_severity ''low'')] \<longrightarrow>
        highSeverity st = 2 \<and> mediumSeverity st = 0 \<and> lowSeverity st = 1)"
    unfolding calculateStats_value
    using u by (simp add: items_def field_of_def with_severity_def)
qed

theorem calculateStats_total_witness:
  "usable (issues (empty_data\<lparr>issues := Items [EObj (with_severity ''high''),
             EObj (with_severity ''high''), EObj (with_severity ''low'')]\<rparr>)) \<and>
   usable (enhancements (empty_data\<lparr>issues := Items [EObj (with_severity ''high''),
             EObj (with_severity ''high''), EObj (with_severity ''low'')]\<rparr>)) \<and>
   usable (file_suggestions (empty_data\<lparr>issues := Items [EObj (with_severity ''high''),
             EObj (with_severity ''high''), EObj (with_severity ''low'')]\<rparr>)) \<and>
   enhancements (empty_data\<lparr>issues := Items [EObj (with_severity ''high''),
             EObj (with_severity ''high''), EObj (with_severity ''low'')]\<rparr>) = Absent \<and>
   file_suggestions (empty_data\<lparr>issues := Items [EObj (with_severity ''high''),
             EObj (with_severity ''high''), EObj (with_severity ''low'')]\<rparr>) = Absent \<and>
   (\<exists>st. calculateStats (Some (empty_data\<lparr>issues := Items [EObj (with_severity ''high''),
             EObj (with_severity ''high''), EObj (with_severity ''low'')]\<rparr>)) = Inr (Some st) \<and>
      highSeverity st = 2 \<and> mediumSeverity st = 0 \<and> lowSeverity st = 1 \<and> totalIssues st = 3 \<and>
      performanceEnhancements st = 0 \<and> securityEnhancements st = 0 \<and>
      maintainabilityEnhancements st = 0 \<and> totalEnhancements st = 0 \<and>
      highPriorityFiles st = 0 \<and> mediumPriorityFiles st = 0 \<and> lowPriorityFiles st = 0) \<and>
   issues (empty_data\<lparr>enhancements := Items [EObj (with_type ''security''), EPrim],
                        file_suggestions := Items [EObj (with_priority ''high'')]\<rparr>) = Absent \<and>
   usable (enhancements (empty_data\<lparr>enhancements := Items [EObj (with_type ''security''), EPrim],
                        file_suggestions := Items [EObj (with_priority ''high'')]\<rparr>)) \<and>
   usable (file_suggestions (empty_data\<lparr>enhancements := Items [EObj (with_type ''security''), EPrim],
                        file_suggestions := Items [EObj (with_priority ''high'')]\<rparr>)) \<and>
   (\<exists>st. calculateStats
            (Some (empty_data\<lparr>enhancements := Items [EObj (with_type ''security''), EPrim],
                     file_suggestions := Items [EObj (with_priority ''high'')]\<rparr>)) = Inr (Some st) \<and>
      highSeverity st = 0 \<and> mediumSeverity st = 0 \<and> lowSeverity st = 0 \<and> totalIssues st = 0 \<and>
      performanceEnhancements st = 0 \<and> securityEnhancements st = 1 \<and>
      maintainabilityEnhancements st = 0 \<and> totalEnhancements st = 2 \<and>
      highPriorityFiles st = 1 \<and> mediumPriorityFiles st = 0 \<and> lowPriorityFiles st = 0)"
  using calculateStats_total
          [of "empty_data\<lparr>issues := Items [EObj (with_severity ''high''),
                 EObj (with_severity ''high''), EObj (with_severity ''low'')]\<rparr>"]
        calculateStats_total
          [of "empty_data\<lparr>enhancements := Items [EObj (with_type ''security''), EPrim],
                 file_suggestions := Items [EObj (with_priority ''high'')]\<rparr>"]
  by (auto simp: empty_data_def with_type_def with_priority_def usable_def field_of_def)

text \<open>
  C10. Whenever \<open>calculateStats\<close> reports statistics, the total number of issues is
  the sum of the three severity counts and of the number of issues whose severity is
  none of the strings \<^verbatim>\<open>high\<close>, \<^verbatim>\<open>medium\<close>, \<^verbatim>\<open>low\<close>. So the three
  counts add up to at most the total, and to exactly the total if and only if every
  issue has one of these three severities.
\<close>

theorem severity_counts_sum:
  "calculateStats (Some r) = Inr (Some st) \<Longrightarrow>
     totalIssues st = length (items (issues r)) \<and>
     totalIssues st =
       highSeverity st + mediumSeverity st + lowSeverity st +
       length (filter (\<lambda>e. field_of severity e \<notin> {JStr ''high'', JStr ''medium'', JStr ''low''})
                 (items (issues r))) \<and>
     highSeverity st + mediumSeverity st + lowSeverity st \<le> totalIssues st \<and>
     ((highSeverity st + mediumSeverity st + lowSeverity st = totalIssues st) =
      (\<forall>e \<in> set (items (issues r)).
         field_of severity e \<in> {JStr ''high'', JStr ''medium'', JStr ''low''}))"
proof -
  assume a: "calculateStats (Some r) = Inr (Some st)"
  let ?xs = "items (issues r)"
  let ?other =
    "length (filter (\<lambda>e. field_of severity e \<notin> {JStr ''high'', JStr ''medium'', JStr ''low''}) ?xs)"
  from calculateStats_Some [OF a]
  have h: "highSeverity st = length (filter (\<lambda>e. field_of severity e = JStr ''high'') ?xs)"
    and m: "mediumSeverity st = length (filter (\<lambda>e. field_of severity e = JStr ''medium'') ?xs)"
    and l: "lowSeverity st = length (filter (\<lambda>e. field_of severity e = JStr ''low'') ?xs)"
    and t: "totalIssues st = length ?xs"
    by simp_all
  have sum: "totalIssues st = highSeverity st + mediumSeverity st + lowSeverity st + ?other"
    unfolding h m l t by (rule severity_partition)
  have eq: "(highSeverity st + mediumSeverity st + lowSeverity st = totalIssues st) = (?other = 0)"
    using sum by arith
  show ?thesis
    using t sum eq no_other_severity [of ?xs] by simp
qed

theorem severity_counts_sum_witness:
  "(\<exists>st. calculateStats (Some (empty_data\<lparr>issues := Items [EObj (with_severity ''high''),
             EObj (with_severity ''critical''), EObj (with_severity ''low'')]\<rparr>)) = Inr (Some st) \<and>
      totalIssues st = 3 \<and> highSeverity st + mediumSeverity st + lowSeverity st = 2) \<and>
   \<not> list_all (\<lambda>e. field_of severity e \<in> {JStr ''high'', JStr ''medium'', JStr ''low''})
         (items (issues (empty_data\<lparr>issues := Items [EObj (with_severity ''high''),
             EObj (with_severity ''critical''), EObj (with_severity ''low'')]\<rparr>))) \<and>
   (\<exists>st. calculateStats (Some (empty_data\<lparr>issues := Items [EObj (with_severity ''high''),
             EObj (with_severity ''medium'')]\<rparr>)) = Inr (Some st) \<and>
      totalIssues st = 2 \<and> highSeverity st + mediumSeverity st + lowSeverity st = 2) \<and>
   list_all (\<lambda>e. field_of severity e \<in> {JStr ''high'', JStr ''medium'', JStr ''low''})
     (items (issues (empty_data\<lparr>issues := Items [EObj (with_severity ''high''),
         EObj (with_severity ''medium'')]\<rparr>)))"
proof -
  let ?r1 = "empty_data\<lparr>issues := Items [EObj (with_severity ''high''),
               EObj (with_severity ''critical''), EObj (with_severity ''low'')]\<rparr>"
  let ?r2 = "empty_data\<lparr>issues := Items [EObj (with_severity ''high''),
               EObj (with_severity ''medium'')]\<rparr>"
  obtain st1 where s1: "calculateStats (Some ?r1) = Inr (Some st1)"
    by (simp add: calculateStats_value usable_def empty_data_def)
  obtain st2 where s2: "calculateStats (Some ?r2) = Inr (Some st2)"
    by (simp add: calculateStats_value usable_def empty_data_def)
  from severity_counts_sum [OF s1] severity_counts_sum [OF s2] s1 s2
  show ?thesis
    by (auto simp: items_def field_of_def with_severity_def empty_data_def list_all_iff)
qed

section \<open>Properties of the action dispatcher\<close>

lemma createPR_posts:
  "(\<exists>e \<in> set (snd (createPR outcome s)). is_post e) =
     (truthy_str (token s) \<and> truthy_str (Option.bind (result s) patch))"
  by (simp add: createPR_def split: pr_outcome.splits)

lemma createEnhancementPR_posts:
  "(\<exists>e \<in> set (snd (createEnhancementPR outcome s)). is_post e) =
     (truthy_str (token s) \<and> truthy_str (Option.bind (result s) enhancement_patch))"
  by (simp add: createEnhancementPR_def split: pr_outcome.splits)

lemma createDeploymentPR_posts:
  "(\<exists>e \<in> set (snd (createDeploymentPR outcome s)). is_post e) =
     (truthy_str (token s) \<and> truthy_str (Option.bind (result s) deployment_patch))"
  by (simp add: createDeploymentPR_def split: pr_outcome.splits)

lemma truthy_str_Some: "truthy_str v \<Longrightarrow> v \<noteq> None"
  by (auto simp: truthy_str_def split: option.splits)

lemma truthy_bind: "truthy_str (Option.bind v f) \<Longrightarrow> \<exists>r. v = Some r \<and> f r \<noteq> None"
  by (cases v) (auto simp: truthy_str_def split: option.splits)

lemma createPR_no_token:
  "token s = None \<Longrightarrow>
     createPR outcome s = (s\<lparr>error := JStr ''Not authenticated. Please login first.''\<rparr>, [])"
  by (simp add: createPR_def truthy_str_def)

lemma createEnhancementPR_no_token:
  "token s = None \<Longrightarrow>
     createEnhancementPR outcome s =
       (s\<lparr>error := JStr ''Not authenticated. Please login first.''\<rparr>, [])"
  by (simp add: createEnhancementPR_def truthy_str_def)

lemma createDeploymentPR_no_token:
  "token s = None \<Longrightarrow>
     createDeploymentPR outcome s =
       (s\<lparr>error := JStr ''Not authenticated. Please login first.''\<rparr>, [])"
  by (simp add: createDeploymentPR_def truthy_str_def)

lemma createPR_no_patch:
  "Option.bind (result s) patch = None \<Longrightarrow>
     createPR outcome s =
       (s\<lparr>error := JStr (if truthy_str (token s) then ''No patch available''
                           else ''Not authenticated. Please login first.'')\<rparr>, [])"
  by (simp add: createPR_def truthy_str_def)

lemma createEnhancementPR_no_patch:
  "Option.bind (result s) enhancement_patch = None \<Longrightarrow>
     createEnhancementPR outcome s =
       (s\<lparr>error := JStr (if truthy_str (token s) then ''No enhancement suggestions available''
                           else ''Not authenticated. Please login first.'')\<rparr>, [])"
  by (simp add: createEnhancementPR_def truthy_str_def)

lemma createDeploymentPR_no_patch:
  "Option.bind (result s) deployment_patch = None \<Longrightarrow>
     createDeploymentPR outcome s =
       (s\<lparr>error := JStr (if truthy_str (token s) then ''No deployment configuration available''
                           else ''Not authenticated. Please login first.'')\<rparr>, [])"
  by (simp add: createDeploymentPR_def truthy_str_def)

text \<open>
  C8. Each of \<open>createPR\<close>, \<open>createEnhancementPR\<close> and \<open>createDeploymentPR\<close> posts
  a request exactly when the credential is a non-empty string and its field of the
  current result (\<open>patch\<close>, \<open>enhancement_patch\<close>, \<open>deployment_patch\<close>) is a non-empty
  string; so it posts only when the credential is not null and the field is present.
  Without a credential it sets the error \<^verbatim>\<open>Not authenticated. Please login first.\<close>
  and makes no network call, whether the field is present or not. Without a result, or
  without the field, it sets a validation error and makes no network call.
\<close>

theorem pr_operations_gated:
  "((\<exists>e \<in> set (snd (createPR outcome s)). is_post e) =
      (truthy_str (token s) \<and> truthy_str (Option.bind (result s) patch))) \<and>
   ((\<exists>e \<in> set (snd (createPR outcome s)). is_post e) \<longrightarrow>
      token s \<noteq> None \<and> (\<exists>r. result s = Some r \<and> patch r \<noteq> None)) \<and>
   (token s = None \<longrightarrow>
      createPR outcome s = (s\<lparr>error := JStr ''Not authenticated. Please login first.''\<rparr>, [])) \<and>
   (Option.bind (result s) patch = None \<longrightarrow>
      createPR outcome s =
        (s\<lparr>error := JStr (if truthy_str (token s) then ''No patch available''
                            else ''Not authenticated. Please login first.'')\<rparr>, [])) \<and>
   ((\<exists>e \<in> set (snd (createEnhancementPR outcome s)). is_post e) =
      (truthy_str (token s) \<and> truthy_str (Option.bind (result s) enhancement_patch))) \<and>
   ((\<exists>e \<in> set (snd (createEnhancementPR outcome s)). is_post e) \<longrightarrow>
      token s \<noteq> None \<and> (\<exists>r. result s = Some r \<and> enhancement_patch r \<noteq> None)) \<and>
   (token s = None \<longrightarrow>
      createEnhancementPR outcome s =
        (s\<lparr>error := JStr ''Not authenticated. Please login first.''\<rparr>, [])) \<and>
   (Option.bind (result s) enhancement_patch = None \<longrightarrow>
      createEnhancementPR outcome s =
        (s\<lparr>error := JStr (if truthy_str (token s) then ''No enhancement suggestions available''
                            else ''Not authenticated. Please login first.'')\<rparr>, [])) \<and>
   ((\<exists>e \<in> set (snd (createDeploymentPR outcome s)). is_post e) =
      (truthy_str (token s) \<and> truthy_str (Option.bind (result s) deployment_patch))) \<and>
   ((\<exists>e \<in> set (snd (createDeploymentPR outcome s)). is_post e) \<longrightarrow>
      token s \<noteq> None \<and> (\<exists>r. result s = Some r \<and> deployment_patch r \<noteq> None)) \<and>
   (token s = None \<longrightarrow>
      createDeploymentPR outcome s =
        (s\<lparr>error := JStr ''Not authenticated. Please login first.''\<rparr>, [])) \<and>
   (Option.bind (result s) deployment_patch = None \<longrightarrow>
      createDeploymentPR outcome s =
        (s\<lparr>error := JStr (if truthy_str (token s) then ''No deployment configuration available''
                            else ''Not authenticated. Please login first.'')\<rparr>, []))"
proof (intro conjI impI)
  show "(\<exists>e \<in> set (snd (createPR outcome s)). is_post e) =
      (truthy_str (token s) \<and> truthy_str (Option.bind (result s) patch))"
    by (rule createPR_posts)
  show "(\<exists>e \<in> set (snd (createEnhancementPR outcome s)). is_post e) =
      (truthy_str (token s) \<and> truthy_str (Option.bind (result s) enhancement_patch))"
    by (rule createEnhancementPR_posts)
  show "(\<exists>e \<in> set (snd (createDeploymentPR outcome s)). is_post e) =
      (truthy_str (token s) \<and> truthy_str (Option.bind (result s) deployment_patch))"
    by (rule createDeploymentPR_posts)
next
  assume "\<exists>e \<in> set (snd (createPR outcome s)). is_post e"
  then have a: "truthy_str (token s) \<and> truthy_str (Option.bind (result s) patch)"
    by (simp only: createPR_posts)
  from a show "token s \<noteq> None" by (blast dest: truthy_str_Some)
  from a show "\<exists>r. result s = Some r \<and> patch r \<noteq> None" by (blast dest: truthy_bind)
next
  assume "\<exists>e \<in> set (snd (createEnhancementPR outcome s)). is_post e"
  then have a: "truthy_str (token s) \<and> truthy_str (Option.bind (result s) enhancement_patch)"
    by (simp only: createEnhancementPR_posts)
  from a show "token s \<noteq> None" by (blast dest: truthy_str_Some)
  from a show "\<exists>r. result s = Some r \<and> enhancement_patch r \<noteq> None" by (blast dest: truthy_bind)
next
  assume "\<exists>e \<in> set (snd (createDeploymentPR outcome s)). is_post e"
  then have a: "truthy_str (token s) \<and> truthy_str (Option.bind (result s) deployment_patch)"
    by (simp only: createDeploymentPR_posts)
  from a show "token s \<noteq> None" by (blast dest: truthy_str_Some)
  from a show "\<exists>r. result s = Some r \<and> deployment_patch r \<noteq> None" by (blast dest: truthy_bind)
next
  assume "token s = None"
  then show "createPR outcome s = (s\<lparr>error := JStr ''Not authenticated. Please login first.''\<rparr>, [])"
    and "createEnhancementPR outcome s = (s\<lparr>error := JStr ''Not authenticated. Please login first.''\<rparr>, [])"
    and "createDeploymentPR outcome s = (s\<lparr>error := JStr ''Not authenticated. Please login first.''\<rparr>, [])"
    by (simp_all add: createPR_no_token createEnhancementPR_no_token createDeploymentPR_no_token)
next
  assume "Option.bind (result s) patch = None"
  then show "createPR outcome s =
        (s\<lparr>error := JStr (if truthy_str (token s) then ''No patch available''
                            else ''Not authenticated. Please login first.'')\<rparr>, [])"
    by (rule createPR_no_patch)
next
  assume "Option.bind (result s) enhancement_patch = None"
  then show "createEnhancementPR outcome s =
        (s\<lparr>error := JStr (if truthy_str (token s) then ''No enhancement suggestions available''
                            else ''Not authenticated. Please login first.'')\<rparr>, [])"
    by (rule createEnhancementPR_no_patch)
next
  assume "Option.bind (result s) deployment_patch = None"
  then show "createDeploymentPR outcome s =
        (s\<lparr>error := JStr (if truthy_str (token s) then ''No deployment configuration available''
                            else ''Not authenticated. Please login first.'')\<rparr>, [])"
    by (rule createDeploymentPR_no_patch)
qed

theorem pr_operations_gated_witness:
  "token signed_out_with_patches = None \<and>
   Option.bind (result signed_out_with_patches) patch = Some ''diff --git a/x b/x'' \<and>
   createPR (Created ''https://example.org/pr/1'') signed_out_with_patches =
     (signed_out_with_patches\<lparr>error := JStr ''Not authenticated. Please login first.''\<rparr>, []) \<and>
   createEnhancementPR (Created ''https://example.org/pr/1'') signed_out_with_patches =
     (signed_out_with_patches\<lparr>error := JStr ''Not authenticated. Please login first.''\<rparr>, []) \<and>
   createDeploymentPR (Created ''https://example.org/pr/1'') signed_out_with_patches =
     (signed_out_with_patches\<lparr>error := JStr ''Not authenticated. Please login first.''\<rparr>, []) \<and>
   Option.bind (result signed_in_no_result) patch = None \<and>
   Option.bind (result signed_in_no_result) enhancement_patch = None \<and>
   Option.bind (result signed_in_no_result) deployment_patch = None \<and>
   createPR (Created ''https://example.org/pr/1'') signed_in_no_result =
     (signed_in_no_result\<lparr>error := JStr ''No patch available''\<rparr>, []) \<and>
   createEnhancementPR (Created ''https://example.org/pr/1'') signed_in_no_result =
     (signed_in_no_result\<lparr>error := JStr ''No enhancement suggestions available''\<rparr>, []) \<and>
   createDeploymentPR (Created ''https://example.org/pr/1'') signed_in_no_result =
     (signed_in_no_result\<lparr>error := JStr ''No deployment configuration available''\<rparr>, []) \<and>
   (\<exists>e \<in> set (snd (createPR (Created ''https://example.org/pr/1'') signed_in_with_patches)).
      is_post e) \<and>
   (\<exists>e \<in> set (snd (createEnhancementPR (Failed network_error) signed_in_with_patches)).
      is_post e) \<and>
   (\<exists>e \<in> set (snd (createDeploymentPR (Failed not_found) signed_in_with_patches)).
      is_post e) \<and>
   token signed_in_with_patches \<noteq> None"
  using pr_operations_gated [of "Created ''https://example.org/pr/1''" signed_out_with_patches]
        pr_operations_gated [of "Created ''https://example.org/pr/1''" signed_in_no_result]
        pr_operations_gated [of "Created ''https://example.org/pr/1''" signed_in_with_patches]
        pr_operations_gated [of "Failed network_error" signed_in_with_patches]
        pr_operations_gated [of "Failed not_found" signed_in_with_patches]
  by (simp add: signed_out_with_patches_def signed_in_no_result_def signed_in_with_patches_def
        initial_results_def empty_data_def truthy_str_def)

section \<open>Properties of the job launcher\<close>

lemma trim_blank: "trim [CHR 0x20, CHR 0x09, CHR 0xC2, CHR 0xA0] = []"
  by code_simp

lemma trim_padded: "trim '' octocat/hello-world  '' = ''octocat/hello-world''"
  by code_simp

lemma analyze_rejects:
  "\<not> truthy_str (d_token s) \<or>
   (analysisMode s = ''your-repos'' \<and> selectedRepo s = []) \<or>
   (analysisMode s \<noteq> ''your-repos'' \<and> trim (customRepo s) = []) \<Longrightarrow>
   analyze outcome s =
     (s\<lparr>d_error := JStr
         (if \<not> truthy_str (d_token s) then ''Not authenticated. Please login first.''
          else if analysisMode s = ''your-repos'' then ''Please select a repository''
          else ''Please enter a public repository (owner/repo)'')\<rparr>, [])"
  by (auto simp: analyze_def)

lemma analyze_posts:
  "truthy_str (d_token s) \<Longrightarrow>
   analysisMode s = ''your-repos'' \<longrightarrow> selectedRepo s \<noteq> [] \<Longrightarrow>
   analysisMode s \<noteq> ''your-repos'' \<longrightarrow> trim (customRepo s) \<noteq> [] \<Longrightarrow>
   filter is_dpost (snd (analyze outcome s)) =
     [DPost (if analysisMode s = ''your-repos'' then ''/api/analyze-repo'' else ''/api/analyze'')
        \<lparr>repo_key = (if analysisMode s = ''your-repos'' then ''repo_full_name'' else ''repo_url''),
         repo = (if analysisMode s = ''your-repos'' then selectedRepo s else customRepo s),
         access_token = d_token s, auto_issue = False, auto_pr = False,
         hosting_provider = hosting s, gemini_api_key = apiKey s,
         model_preference = modelPreference s\<rparr>]"
  by (auto simp: analyze_def Let_def split: analyze_outcome.splits)

lemma rate_limit_message_marker: "str_includes rate_limit_message ''429''"
  unfolding rate_limit_message_def by simp

lemma rate_limit_message_head: "hd rate_limit_message = CHR 0xE2"
  unfolding rate_limit_message_def by simp

lemma rate_limit_message_not_generic: "rate_limit_message \<noteq> ''Analysis failed''"
  unfolding rate_limit_message_def by simp

lemma error_detail_truthy: "truthy (error_detail err)"
  by (simp add: error_detail_def js_or_def)

lemma error_detail_cases:
  "error_detail err =
     (if truthy (detail_of err) then detail_of err
      else if truthy (message err) then message err
      else JStr ''Analysis failed'')"
  by (simp add: error_detail_def js_or_def)

lemma surfaced_rate_limited:
  "is_rate_limited err \<Longrightarrow> surfaced_error err = JStr rate_limit_message"
  by (simp add: surfaced_error_def)

lemma surfaced_other:
  "\<not> is_rate_limited err \<Longrightarrow>
     surfaced_error err =
       (case error_detail err of
          JArr t \<Rightarrow> JStr (''['' @ t @ '']'')
        | JObj t \<Rightarrow> JStr (''{'' @ t @ ''}'')
        | v \<Rightarrow> v)"
  using error_detail_truthy [of err]
  by (cases "error_detail err") (simp_all add: surfaced_error_def)

lemma surfaced_other_distinct:
  assumes "\<not> is_rate_limited err"
  shows "surfaced_error err \<noteq> JStr rate_limit_message"
proof (cases "error_detail err")
  case (JStr t)
  with assms have "\<not> str_includes t ''429''"
    by (simp add: is_rate_limited_def)
  with rate_limit_message_marker have "t \<noteq> rate_limit_message"
    by auto
  with JStr assms show ?thesis
    by (simp add: surfaced_other)
next
  case (JArr t)
  have "hd (''['' @ t @ '']'') \<noteq> hd rate_limit_message"
    by (simp add: rate_limit_message_head)
  then have "''['' @ t @ '']'' \<noteq> rate_limit_message"
    by metis
  with JArr assms show ?thesis
    by (simp add: surfaced_other)
next
  case (JObj t)
  have "hd (''{'' @ t @ ''}'') \<noteq> hd rate_limit_message"
    by (simp add: rate_limit_message_head)
  then have "''{'' @ t @ ''}'' \<noteq> rate_limit_message"
    by metis
  with JObj assms show ?thesis
    by (simp add: surfaced_other)
qed (use assms in \<open>simp_all add: surfaced_other\<close>)

lemma analyze_refused:
  "truthy_str (d_token s) \<Longrightarrow>
   analysisMode s = ''your-repos'' \<longrightarrow> selectedRepo s \<noteq> [] \<Longrightarrow>
   analysisMode s \<noteq> ''your-repos'' \<longrightarrow> trim (customRepo s) \<noteq> [] \<Longrightarrow>
   fst (analyze (Refused err) s) =
     s\<lparr>d_loading := False, d_error := surfaced_error err, isAnalyzing := False\<rparr>"
  by (auto simp: analyze_def Let_def)

text \<open>
  C6. \<open>analyze\<close> sets an error and has no other effect, so makes no network call,
  whenever the credential is null or empty, or the mode is \<^verbatim>\<open>your-repos\<close> and no
  repository is selected, or the mode is another one (the public-repository form) and
  \<open>customRepo\<close> is empty after trimming. In every other case it posts exactly one
  request, to the endpoint and with the body of the active form.
\<close>

theorem analyze_local_validation:
  "(\<not> truthy_str (d_token s) \<or>
    (analysisMode s = ''your-repos'' \<and> selectedRepo s = []) \<or>
    (analysisMode s \<noteq> ''your-repos'' \<and> trim (customRepo s) = []) \<longrightarrow>
      analyze outcome s =
        (s\<lparr>d_error := JStr
            (if \<not> truthy_str (d_token s) then ''Not authenticated. Please login first.''
             else if analysisMode s = ''your-repos'' then ''Please select a repository''
             else ''Please enter a public repository (owner/repo)'')\<rparr>, [])) \<and>
   (\<not> (\<not> truthy_str (d_token s) \<or>
       (analysisMode s = ''your-repos'' \<and> selectedRepo s = []) \<or>
       (analysisMode s \<noteq> ''your-repos'' \<and> trim (customRepo s) = [])) \<longrightarrow>
      filter is_dpost (snd (analyze outcome s)) =
        [DPost (if analysisMode s = ''your-repos'' then ''/api/analyze-repo'' else ''/api/analyze'')
           \<lparr>repo_key = (if analysisMode s = ''your-repos'' then ''repo_full_name'' else ''repo_url''),
            repo = (if analysisMode s = ''your-repos'' then selectedRepo s else customRepo s),
            access_token = d_token s, auto_issue = False, auto_pr = False,
            hosting_provider = hosting s, gemini_api_key = apiKey s,
            model_preference = modelPreference s\<rparr>]) \<and>
   (d_token s = None \<longrightarrow> \<not> truthy_str (d_token s))"
proof (intro conjI impI)
  assume "\<not> truthy_str (d_token s) \<or>
    (analysisMode s = ''your-repos'' \<and> selectedRepo s = []) \<or>
    (analysisMode s \<noteq> ''your-repos'' \<and> trim (customRepo s) = [])"
  then show "analyze outcome s =
        (s\<lparr>d_error := JStr
            (if \<not> truthy_str (d_token s) then ''Not authenticated. Please login first.''
             else if analysisMode s = ''your-repos'' then ''Please select a repository''
             else ''Please enter a public repository (owner/repo)'')\<rparr>, [])"
    by (rule analyze_rejects)
next
  assume a: "\<not> (\<not> truthy_str (d_token s) \<or>
       (analysisMode s = ''your-repos'' \<and> selectedRepo s = []) \<or>
       (analysisMode s \<noteq> ''your-repos'' \<and> trim (customRepo s) = []))"
  show "filter is_dpost (snd (analyze outcome s)) =
        [DPost (if analysisMode s = ''your-repos'' then ''/api/analyze-repo'' else ''/api/analyze'')
           \<lparr>repo_key = (if analysisMode s = ''your-repos'' then ''repo_full_name'' else ''repo_url''),
            repo = (if analysisMode s = ''your-repos'' then selectedRepo s else customRepo s),
            access_token = d_token s, auto_issue = False, auto_pr = False,
            hosting_provider = hosting s, gemini_api_key = apiKey s,
            model_preference = modelPreference s\<rparr>]"
    by (rule analyze_posts) (use a in blast)+
next
  assume "d_token s = None"
  then show "\<not> truthy_str (d_token s)" by (simp add: truthy_str_def)
qed

theorem analyze_local_validation_witness:
  "analysisMode (initial_dash\<lparr>d_token := Some ''tok''\<rparr>) = ''your-repos'' \<and>
   selectedRepo (initial_dash\<lparr>d_token := Some ''tok''\<rparr>) = [] \<and>
   analyze (Submitted ''job-1'') (initial_dash\<lparr>d_token := Some ''tok''\<rparr>) =
     (initial_dash\<lparr>d_error := JStr ''Please select a repository'', d_token := Some ''tok''\<rparr>, []) \<and>
   d_token (initial_dash\<lparr>selectedRepo := ''octocat/hello-world''\<rparr>) = None \<and>
   analyze (Submitted ''job-1'') (initial_dash\<lparr>selectedRepo := ''octocat/hello-world''\<rparr>) =
     (initial_dash\<lparr>selectedRepo := ''octocat/hello-world'',
        d_error := JStr ''Not authenticated. Please login first.''\<rparr>, []) \<and>
   trim (customRepo (initial_dash\<lparr>customRepo := [CHR 0x20, CHR 0x09, CHR 0xC2, CHR 0xA0],
           analysisMode := ''public-repo'', d_token := Some ''tok''\<rparr>)) = [] \<and>
   analyze (Submitted ''job-1'')
     (initial_dash\<lparr>customRepo := [CHR 0x20, CHR 0x09, CHR 0xC2, CHR 0xA0],
        analysisMode := ''public-repo'', d_token := Some ''tok''\<rparr>) =
     (initial_dash\<lparr>customRepo := [CHR 0x20, CHR 0x09, CHR 0xC2, CHR 0xA0],
        d_error := JStr ''Please enter a public repository (owner/repo)'',
        analysisMode := ''public-repo'', d_token := Some ''tok''\<rparr>, []) \<and>
   filter is_dpost (snd (analyze (Submitted ''job-1'')
     (initial_dash\<lparr>customRepo := '' octocat/hello-world  '',
        analysisMode := ''public-repo'', d_token := Some ''tok''\<rparr>))) =
     [DPost ''/api/analyze''
        \<lparr>repo_key = ''repo_url'', repo = '' octocat/hello-world  '',
         access_token = Some ''tok'', auto_issue = False, auto_pr = False,
         hosting_provider = None, gemini_api_key = [],
         model_preference = ''gemini-2.5-flash''\<rparr>]"
  using analyze_local_validation [of "initial_dash\<lparr>d_token := Some ''tok''\<rparr>" "Submitted ''job-1''"]
        analyze_local_validation [of "initial_dash\<lparr>selectedRepo := ''octocat/hello-world''\<rparr>"
          "Submitted ''job-1''"]
        analyze_local_validation
          [of "initial_dash\<lparr>customRepo := [CHR 0x20, CHR 0x09, CHR 0xC2, CHR 0xA0],
                 analysisMode := ''public-repo'', d_token := Some ''tok''\<rparr>" "Submitted ''job-1''"]
        analyze_local_validation
          [of "initial_dash\<lparr>customRepo := '' octocat/hello-world  '',
                 analysisMode := ''public-repo'', d_token := Some ''tok''\<rparr>" "Submitted ''job-1''"]
  by (simp add: initial_dash_def truthy_str_def trim_blank trim_padded)

text \<open>
  C7. The error detail of a failed submission is the \<^verbatim>\<open>detail\<close> of the response
  body when there is one, else the failure's own message, else the text
  \<^verbatim>\<open>Analysis failed\<close>. When the HTTP status is 429, or that detail is a string that
  contains \<^verbatim>\<open>429\<close>, the error shown is the rate-limit message. For every other
  failure the error shown is that detail (an array or an object as its JSON text), and
  it is never the rate-limit message; the rate-limit message is not the generic text
  either. A submission that passed the local checks and is refused ends with that
  error, and with \<open>loading\<close> and \<open>isAnalyzing\<close> cleared.
\<close>

theorem rate_limit_message_distinct:
  "(status_of err = Some 429 \<longrightarrow> surfaced_error err = JStr rate_limit_message) \<and>
   (\<forall>t. error_detail err = JStr t \<and> str_includes t ''429'' \<longrightarrow>
      surfaced_error err = JStr rate_limit_message) \<and>
   (status_of err \<noteq> Some 429 \<and>
    \<not> (\<exists>t. error_detail err = JStr t \<and> str_includes t ''429'') \<longrightarrow>
      surfaced_error err =
        (case error_detail err of
           JArr t \<Rightarrow> JStr (''['' @ t @ '']'')
         | JObj t \<Rightarrow> JStr (''{'' @ t @ ''}'')
         | v \<Rightarrow> v) \<and>
      surfaced_error err \<noteq> JStr rate_limit_message) \<and>
   error_detail err =
     (if truthy (detail_of err) then detail_of err
      else if truthy (message err) then message err
      else JStr ''Analysis failed'') \<and>
   rate_limit_message \<noteq> ''Analysis failed'' \<and>
   (truthy_str (d_token s) \<and>
    (analysisMode s = ''your-repos'' \<longrightarrow> selectedRepo s \<noteq> []) \<and>
    (analysisMode s \<noteq> ''your-repos'' \<longrightarrow> trim (customRepo s) \<noteq> []) \<longrightarrow>
      fst (analyze (Refused err) s) =
        s\<lparr>d_loading := False, d_error := surfaced_error err, isAnalyzing := False\<rparr>)"
proof (intro conjI impI allI)
  assume "status_of err = Some 429"
  then have "is_rate_limited err" by (simp add: is_rate_limited_def)
  then show "surfaced_error err = JStr rate_limit_message" by (rule surfaced_rate_limited)
next
  fix t
  assume "error_detail err = JStr t \<and> str_includes t ''429''"
  then have "is_rate_limited err" by (simp add: is_rate_limited_def)
  then show "surfaced_error err = JStr rate_limit_message" by (rule surfaced_rate_limited)
next
  assume a: "status_of err \<noteq> Some 429 \<and>
    \<not> (\<exists>t. error_detail err = JStr t \<and> str_includes t ''429'')"
  then have n: "\<not> is_rate_limited err"
    by (cases "error_detail err") (simp_all add: is_rate_limited_def)
  from n show "surfaced_error err =
        (case error_detail err of
           JArr t \<Rightarrow> JStr (''['' @ t @ '']'')
         | JObj t \<Rightarrow> JStr (''{'' @ t @ ''}'')
         | v \<Rightarrow> v)"
    by (rule surfaced_other)
  from n show "surfaced_error err \<noteq> JStr rate_limit_message"
    by (rule surfaced_other_distinct)
next
  show "error_detail err =
     (if truthy (detail_of err) then detail_of err
      else if truthy (message err) then message err
      else JStr ''Analysis failed'')"
    by (rule error_detail_cases)
  show "rate_limit_message \<noteq> ''Analysis failed''"
    by (rule rate_limit_message_not_generic)
next
  assume "truthy_str (d_token s) \<and>
    (analysisMode s = ''your-repos'' \<longrightarrow> selectedRepo s \<noteq> []) \<and>
    (analysisMode s \<noteq> ''your-repos'' \<longrightarrow> trim (customRepo s) \<noteq> [])"
  then show "fst (analyze (Refused err) s) =
        s\<lparr>d_loading := False, d_error := surfaced_error err, isAnalyzing := False\<rparr>"
    by (simp add: analyze_refused)
qed

theorem rate_limit_message_distinct_witness:
  "status_of too_many_requests = Some 429 \<and>
   surfaced_error too_many_requests = JStr rate_limit_message \<and>
   error_detail marker_in_detail = JStr ''Gemini error 429: quota exceeded'' \<and>
   str_includes ''Gemini error 429: quota exceeded'' ''429'' \<and>
   surfaced_error marker_in_detail = JStr rate_limit_message \<and>
   status_of not_found \<noteq> Some 429 \<and>
   \<not> (\<exists>t. error_detail not_found = JStr t \<and> str_includes t ''429'') \<and>
   surfaced_error not_found = JStr ''Repository not found'' \<and>
   surfaced_error not_found \<noteq> JStr rate_limit_message \<and>
   truthy_str (d_token ready_dash) \<and> analysisMode ready_dash = ''your-repos'' \<and>
   selectedRepo ready_dash \<noteq> [] \<and>
   fst (analyze (Refused too_many_requests) ready_dash) =
     ready_dash\<lparr>d_loading := False, d_error := JStr rate_limit_message, isAnalyzing := False\<rparr>"
proof -
  have h1: "status_of too_many_requests = Some 429"
    by (simp add: too_many_requests_def status_of_def)
  have h2: "error_detail marker_in_detail = JStr ''Gemini error 429: quota exceeded''"
    by (simp add: marker_in_detail_def error_detail_def detail_of_def js_or_def)
  have h3: "str_includes ''Gemini error 429: quota exceeded'' ''429''"
    by simp
  have h4: "status_of not_found \<noteq> Some 429"
    by (simp add: not_found_def status_of_def)
  have h5: "error_detail not_found = JStr ''Repository not found''"
    by (simp add: not_found_def error_detail_def detail_of_def js_or_def)
  have h6: "\<not> (\<exists>t. error_detail not_found = JStr t \<and> str_includes t ''429'')"
    by (simp add: h5)
  have h7: "truthy_str (d_token ready_dash) \<and> analysisMode ready_dash = ''your-repos'' \<and>
            selectedRepo ready_dash \<noteq> []"
    by (simp add: ready_dash_def initial_dash_def truthy_str_def)
  note t1 = rate_limit_message_distinct [of too_many_requests ready_dash]
  note t2 = rate_limit_message_distinct [of marker_in_detail ready_dash]
  note t3 = rate_limit_message_distinct [of not_found ready_dash]
  from t1 h1 have c1: "surfaced_error too_many_requests = JStr rate_limit_message"
    by blast
  from t2 h2 h3 have c2: "surfaced_error marker_in_detail = JStr rate_limit_message"
    by blast
  from t3 h4 h6 have c3: "surfaced_error not_found =
        (case error_detail not_found of
           JArr t \<Rightarrow> JStr (''['' @ t @ '']'')
         | JObj t \<Rightarrow> JStr (''{'' @ t @ ''}'')
         | v \<Rightarrow> v)"
    and c4: "surfaced_error not_found \<noteq> JStr rate_limit_message"
    by blast+
  from c3 have c5: "surfaced_error not_found = JStr ''Repository not found''"
    by (simp add: h5)
  from t1 h7 have "fst (analyze (Refused too_many_requests) ready_dash) =
        ready_dash\<lparr>d_loading := False, d_error := surfaced_error too_many_requests,
          isAnalyzing := False\<rparr>"
    by simp
  then have c6: "fst (analyze (Refused too_many_requests) ready_dash) =
     ready_dash\<lparr>d_loading := False, d_error := JStr rate_limit_message, isAnalyzing := False\<rparr>"
    by (simp only: c1)
  from h1 c1 h2 h3 c2 h4 h6 c5 c4 h7 c6 show ?thesis
    by blast
qed

section \<open>Properties of the session store\<close>

lemma callback_store_dom:
  "dom (callback_store tok user st) \<subseteq> dom st \<union> {''access_token'', ''user_login'', ''user_name''}"
  by (auto simp: callback_store_def split: option.splits if_splits)

lemma apply_event_dom:
  "dom st \<subseteq> {''access_token'', ''user_login'', ''user_name''} \<Longrightarrow>
     dom (apply_event e st) \<subseteq> {''access_token'', ''user_login'', ''user_name''}"
proof (cases e)
  case (Callback tok user)
  assume "dom st \<subseteq> {''access_token'', ''user_login'', ''user_name''}"
  with callback_store_dom [of tok user st] Callback show ?thesis
    by auto
next
  case LogoutResults
  assume "dom st \<subseteq> {''access_token'', ''user_login'', ''user_name''}"
  with LogoutResults show ?thesis
    by (auto simp: handleLogout_results_def removeItem_def split: if_splits)
next
  case LogoutDashboard
  then show ?thesis
    by (simp add: handleLogout_dashboard_def)
qed

lemma run_events_dom:
  "dom st \<subseteq> {''access_token'', ''user_login'', ''user_name''} \<Longrightarrow>
     dom (run_events es st) \<subseteq> {''access_token'', ''user_login'', ''user_name''}"
  by (induction es arbitrary: st) (simp_all add: apply_event_dom)

lemma handleLogout_results_removes:
  "fst (handleLogout_results st) k =
     (if k \<in> {''access_token'', ''user_email'', ''user_name'', ''user_id'', ''user_login''}
      then None else st k)"
  by (simp add: handleLogout_results_def removeItem_def)

lemma handleLogout_results_empty:
  assumes "dom st \<subseteq> {''access_token'', ''user_login'', ''user_name''}"
  shows "fst (handleLogout_results st) = Map.empty"
proof
  fix k
  show "fst (handleLogout_results st) k = None"
  proof (cases "k \<in> {''access_token'', ''user_email'', ''user_name'', ''user_id'', ''user_login''}")
    case True
    then show ?thesis by (simp only: handleLogout_results_removes if_True)
  next
    case False
    then have "k \<notin> dom st" using assms by auto
    then have "st k = None" by (simp add: domIff)
    with False show ?thesis by (simp only: handleLogout_results_removes if_False)
  qed
qed

text \<open>
  C9. The pages write the storage only in the authentication callback, which stores
  the credential under \<^verbatim>\<open>access_token\<close> and the user name under \<^verbatim>\<open>user_login\<close>
  and \<^verbatim>\<open>user_name\<close>. So after any sequence of callbacks and sign-outs, starting
  from the empty storage, a sign-out from either page leaves the storage empty: none
  of the session keys that the pages read (credential, user name, avatar URL) remains.
  On any storage at all, the dashboard's handler leaves it empty and the results
  page's handler removes the credential and the user name.
\<close>

theorem sign_out_clears_session:
  "run_events [Callback (Some ''tok'') (Some ''octocat'')] Map.empty =
     [''access_token'' \<mapsto> ''tok'', ''user_login'' \<mapsto> ''octocat'', ''user_name'' \<mapsto> ''octocat''] \<and>
   fst (handleLogout_results (run_events es Map.empty)) = Map.empty \<and>
   fst (handleLogout_dashboard (run_events es Map.empty)) = Map.empty \<and>
   map (fst (handleLogout_results (run_events es Map.empty))) session_keys = [None, None, None] \<and>
   map (fst (handleLogout_dashboard (run_events es Map.empty))) session_keys = [None, None, None] \<and>
   fst (handleLogout_dashboard st) = Map.empty \<and>
   fst (handleLogout_results st) ''access_token'' = None \<and>
   fst (handleLogout_results st) ''user_name'' = None \<and>
   fst (handleLogout_results st) ''user_login'' = None"
proof -
  have "dom (run_events es Map.empty) \<subseteq> {''access_token'', ''user_login'', ''user_name''}"
    by (rule run_events_dom) simp
  then have r: "fst (handleLogout_results (run_events es Map.empty)) = Map.empty"
    by (rule handleLogout_results_empty)
  have d: "fst (handleLogout_dashboard st') = Map.empty" for st'
    by (simp add: handleLogout_dashboard_def)
  have c: "run_events [Callback (Some ''tok'') (Some ''octocat'')] Map.empty =
     [''access_token'' \<mapsto> ''tok'', ''user_login'' \<mapsto> ''octocat'', ''user_name'' \<mapsto> ''octocat'']"
    by (simp add: callback_store_def)
  show ?thesis
    by (simp only: r d c) (simp add: session_keys_def handleLogout_results_removes)
qed

end
